theory Spec2Isabelle
  imports Main
begin

section \<open>The relay: \<^verbatim>\<open>Backend/server.js\<close>\<close>

subsection \<open>Data on the wire\<close>

text \<open>
  Socket ids, user ids and chat ids are JavaScript strings, and all of them are used as
  room names by the server.
\<close>

type_synonym socket_id = string
type_synonym room = string

text \<open>A populated user document: \<^verbatim>\<open>{_id, name}\<close>.\<close>

record user =
  uid :: string
  uname :: string

text \<open>
  A chat document and a message document as the REST collaborator returns them and the
  client forwards them. \<^verbatim>\<open>message.chat\<close>, \<^verbatim>\<open>chat.users\<close> and
  \<^verbatim>\<open>message.sender\<close> may be missing (\<open>None\<close>).
\<close>

record chat =
  chat_id :: string
  users :: "user list option"

record message =
  chat :: "chat option"
  sender :: "user option"
  content :: string

text \<open>
  A session description and an ICE candidate are opaque to the relay. A description is kept
  as its type and the kinds of media its sender announces it will send (one for each track
  attached on that side; none when that side only receives).
\<close>

datatype media_kind = Audio | Video

datatype sdp_type = Offer | Answer

record description =
  sdp_type :: sdp_type
  sdp_media :: "media_kind list"

datatype candidate = Candidate string

text \<open>
  The payload object \<^verbatim>\<open>data\<close> of a call-signaling event. Every property is optional, as
  in JavaScript: \<^verbatim>\<open>data.to\<close>, \<^verbatim>\<open>data.from\<close>, \<^verbatim>\<open>data.name\<close>, \<^verbatim>\<open>data.callType\<close>,
  \<^verbatim>\<open>data.offer\<close>, \<^verbatim>\<open>data.answer\<close>, \<^verbatim>\<open>data.candidate\<close>.
\<close>

record signal =
  sig_to :: "room option"
  sig_from :: "string option"
  sig_name :: "string option"
  sig_callType :: "string option"
  sig_offer :: "description option"
  sig_answer :: "description option"
  sig_candidate :: "candidate option"

definition no_signal :: signal where
  "no_signal = \<lparr>sig_to = None, sig_from = None, sig_name = None, sig_callType = None,
     sig_offer = None, sig_answer = None, sig_candidate = None\<rparr>"

text \<open>Events a client sends to the server (the \<^verbatim>\<open>socket.on\<close> registrations of server.js).\<close>

datatype client_msg =
    C_setup "user option"
  | C_join_chat room
  | C_new_message message
  | C_call_user signal
  | C_call_accepted signal
  | C_prepare_call signal
  | C_ready_for_offer signal
  | C_webrtc_offer signal
  | C_webrtc_answer signal
  | C_webrtc_ice_candidate signal
  | C_end_call signal

text \<open>Events the server emits to a client.\<close>

datatype server_msg =
    S_connected
  | S_message_received message
  | S_incoming_call signal
  | S_call_accepted signal
  | S_prepare_call signal
  | S_ready_for_offer signal
  | S_webrtc_offer signal
  | S_webrtc_answer signal
  | S_webrtc_ice_candidate signal
  | S_end_call signal
  | S_peer_disconnected socket_id

text \<open>The lines the server writes with \<^verbatim>\<open>console.log\<close>.\<close>

datatype server_log =
    Log_socket_connected socket_id
  | Log_user_connected string string
  | Log_joined_chat room
  | Log_users_not_defined
  | Log_socket_disconnected socket_id

datatype error = TypeError | InvalidStateError | NotAllowedError

subsection \<open>The socket.io primitives the server calls\<close>

text \<open>
  The server keeps no state of its own: all of it is socket.io's adapter, which records for
  every connected socket the set of rooms it is in (\<^verbatim>\<open>socket.rooms\<close>, a JavaScript
  \<^verbatim>\<open>Set\<close> in insertion order). The state is the list of connected sockets in connection
  order, each with its rooms. A socket is put in the room named by its own id when it
  connects.
\<close>

type_synonym server = "(socket_id \<times> room list) list"

type_synonym delivery = "socket_id \<times> server_msg"

type_synonym outcome = "server \<times> delivery list \<times> server_log list"

definition connect :: "socket_id \<Rightarrow> server \<Rightarrow> server" where
  "connect sid st = st @ [(sid, [sid])]"

definition socket_rooms :: "server \<Rightarrow> socket_id \<Rightarrow> room list" where
  "socket_rooms st sid = (case map_of st sid of None \<Rightarrow> [] | Some rs \<Rightarrow> rs)"

text \<open>\<^verbatim>\<open>socket.join(room)\<close>: \<^verbatim>\<open>Set.add\<close> on the socket's rooms.\<close>

definition set_add :: "room \<Rightarrow> room list \<Rightarrow> room list" where
  "set_add r rs = (if r \<in> set rs then rs else rs @ [r])"

fun socket_join :: "socket_id \<Rightarrow> room \<Rightarrow> server \<Rightarrow> server" where
  "socket_join sid r [] = []"
| "socket_join sid r ((s, rs) # st) =
     (if s = sid then (s, set_add r rs) # socket_join sid r st
      else (s, rs) # socket_join sid r st)"

text \<open>
  \<^verbatim>\<open>io.to(room)\<close>: the sockets currently in the room. A target that is \<^verbatim>\<open>undefined\<close>
  names no room. Within one broadcast the sockets are listed here in connection order,
  by socket.io in the order in which they joined the room; no theorem below depends on
  that order.
\<close>

fun io_to :: "server \<Rightarrow> room option \<Rightarrow> socket_id list" where
  "io_to st None = []"
| "io_to st (Some r) = map fst (filter (\<lambda>(s, rs). r \<in> set rs) st)"

text \<open>\<^verbatim>\<open>io.to(room).emit(event, payload)\<close>: one delivery to each socket in the room.\<close>

definition io_to_emit :: "server \<Rightarrow> room option \<Rightarrow> server_msg \<Rightarrow> delivery list" where
  "io_to_emit st r ev = map (\<lambda>s. (s, ev)) (io_to st r)"

text \<open>What socket.io does after the \<^verbatim>\<open>disconnecting\<close> handlers ran: the socket leaves all rooms.\<close>

definition leave_all :: "socket_id \<Rightarrow> server \<Rightarrow> server" where
  "leave_all sid st = filter (\<lambda>(s, rs). s \<noteq> sid) st"

subsection \<open>The handlers of server.js\<close>

definition on_connection :: "socket_id \<Rightarrow> server \<Rightarrow> outcome" where
  "on_connection sid st = (connect sid st, [], [Log_socket_connected sid])"

text \<open>
  \<^verbatim>\<open>if (!userData?._id) return;\<close> A missing \<^verbatim>\<open>userData\<close> is \<open>None\<close>; a missing or empty
  \<^verbatim>\<open>_id\<close> is the empty string, which is falsy as well.
\<close>

definition on_setup :: "socket_id \<Rightarrow> user option \<Rightarrow> server \<Rightarrow> outcome" where
  "on_setup sid userData st =
     (case userData of
        None \<Rightarrow> (st, [], [])
      | Some u \<Rightarrow>
          if uid u = [] then (st, [], [])
          else (socket_join sid (uid u) st, [(sid, S_connected)],
                [Log_user_connected (uname u) (uid u)]))"

definition on_join_chat :: "socket_id \<Rightarrow> room \<Rightarrow> server \<Rightarrow> outcome" where
  "on_join_chat sid roomId st = (socket_join sid roomId st, [], [Log_joined_chat roomId])"

text \<open>
  The body of \<^verbatim>\<open>chat.users.forEach\<close>. Reading \<^verbatim>\<open>message.sender._id\<close> throws a
  \<^verbatim>\<open>TypeError\<close> when the message has no sender; that happens in the first iteration,
  before anything is emitted, or never.
\<close>

fun deliver :: "server \<Rightarrow> message \<Rightarrow> user list \<Rightarrow> error + delivery list" where
  "deliver st m [] = Inr []"
| "deliver st m (u # us) =
     (case sender m of
        None \<Rightarrow> Inl TypeError
      | Some sd \<Rightarrow>
          if uid u = uid sd then deliver st m us
          else (case deliver st m us of
                  Inl e \<Rightarrow> Inl e
                | Inr ds \<Rightarrow> Inr (io_to_emit st (Some (uid u)) (S_message_received m) @ ds)))"

text \<open>
  The same loop as the list of its calls \<^verbatim>\<open>io.to(user._id).emit("message received", message)\<close>,
  each as the room it names and the event it carries, before socket.io turns a call into
  deliveries.
\<close>

fun emits :: "message \<Rightarrow> user list \<Rightarrow> error + (room \<times> server_msg) list" where
  "emits m [] = Inr []"
| "emits m (u # us) =
     (case sender m of
        None \<Rightarrow> Inl TypeError
      | Some sd \<Rightarrow>
          if uid u = uid sd then emits m us
          else (case emits m us of
                  Inl e \<Rightarrow> Inl e
                | Inr es \<Rightarrow> Inr ((uid u, S_message_received m) # es)))"

text \<open>
  \<^verbatim>\<open>if (!chat?.users) return console.log(...)\<close>: the guard fires when \<^verbatim>\<open>message.chat\<close> or
  \<^verbatim>\<open>chat.users\<close> is missing. An empty array is truthy in JavaScript and passes the guard.
\<close>

definition on_new_message :: "message \<Rightarrow> server \<Rightarrow> error + outcome" where
  "on_new_message m st =
     (case chat m of
        None \<Rightarrow> Inr (st, [], [Log_users_not_defined])
      | Some c \<Rightarrow>
          (case users c of
             None \<Rightarrow> Inr (st, [], [Log_users_not_defined])
           | Some us \<Rightarrow>
               (case deliver st m us of
                  Inl e \<Rightarrow> Inl e
                | Inr ds \<Rightarrow> Inr (st, ds, []))))"

definition on_call_user :: "signal \<Rightarrow> server \<Rightarrow> outcome" where
  "on_call_user d st =
     (st, io_to_emit st (sig_to d)
        (S_incoming_call (no_signal\<lparr>sig_from := sig_from d, sig_name := sig_name d,
           sig_callType := sig_callType d\<rparr>)), [])"

definition on_call_accepted :: "signal \<Rightarrow> server \<Rightarrow> outcome" where
  "on_call_accepted d st =
     (st, io_to_emit st (sig_to d) (S_call_accepted (no_signal\<lparr>sig_from := sig_from d\<rparr>)), [])"

definition on_prepare_call :: "signal \<Rightarrow> server \<Rightarrow> outcome" where
  "on_prepare_call d st =
     (st, io_to_emit st (sig_to d) (S_prepare_call (no_signal\<lparr>sig_from := sig_from d\<rparr>)), [])"

definition on_ready_for_offer :: "signal \<Rightarrow> server \<Rightarrow> outcome" where
  "on_ready_for_offer d st =
     (st, io_to_emit st (sig_to d) (S_ready_for_offer (no_signal\<lparr>sig_from := sig_from d\<rparr>)), [])"

definition on_webrtc_offer :: "signal \<Rightarrow> server \<Rightarrow> outcome" where
  "on_webrtc_offer d st = (st, io_to_emit st (sig_to d) (S_webrtc_offer d), [])"

definition on_webrtc_answer :: "signal \<Rightarrow> server \<Rightarrow> outcome" where
  "on_webrtc_answer d st = (st, io_to_emit st (sig_to d) (S_webrtc_answer d), [])"

definition on_webrtc_ice_candidate :: "signal \<Rightarrow> server \<Rightarrow> outcome" where
  "on_webrtc_ice_candidate d st = (st, io_to_emit st (sig_to d) (S_webrtc_ice_candidate d), [])"

definition on_end_call :: "signal \<Rightarrow> server \<Rightarrow> outcome" where
  "on_end_call d st = (st, io_to_emit st (sig_to d) (S_end_call d), [])"

text \<open>
  \<^verbatim>\<open>rooms.forEach\<close> of the \<^verbatim>\<open>disconnecting\<close> handler: one broadcast per room of the
  socket other than the room named by its own id. The socket is still in its rooms while
  the handler runs.
\<close>

fun notify_rooms :: "server \<Rightarrow> socket_id \<Rightarrow> room list \<Rightarrow> delivery list" where
  "notify_rooms st sid [] = []"
| "notify_rooms st sid (r # rs) =
     (if r \<noteq> sid then io_to_emit st (Some r) (S_peer_disconnected sid) @ notify_rooms st sid rs
      else notify_rooms st sid rs)"

definition on_disconnecting :: "socket_id \<Rightarrow> server \<Rightarrow> outcome" where
  "on_disconnecting sid st = (st, notify_rooms st sid (socket_rooms st sid), [])"

definition on_disconnect :: "socket_id \<Rightarrow> server \<Rightarrow> outcome" where
  "on_disconnect sid st = (st, [], [Log_socket_disconnected sid])"

text \<open>A socket going away: the two handlers, with socket.io's clean-up between them.\<close>

definition disconnect :: "socket_id \<Rightarrow> server \<Rightarrow> outcome" where
  "disconnect sid st =
     (case on_disconnecting sid st of
        (st1, ds1, ls1) \<Rightarrow>
          (case on_disconnect sid (leave_all sid st1) of
             (st2, ds2, ls2) \<Rightarrow> (st2, ds1 @ ds2, ls1 @ ls2)))"

text \<open>The dispatch socket.io does on the event name for the socket \<open>sid\<close>.\<close>

fun server_on :: "socket_id \<Rightarrow> client_msg \<Rightarrow> server \<Rightarrow> error + outcome" where
  "server_on sid (C_setup u) st = Inr (on_setup sid u st)"
| "server_on sid (C_join_chat r) st = Inr (on_join_chat sid r st)"
| "server_on sid (C_new_message m) st = on_new_message m st"
| "server_on sid (C_call_user d) st = Inr (on_call_user d st)"
| "server_on sid (C_call_accepted d) st = Inr (on_call_accepted d st)"
| "server_on sid (C_prepare_call d) st = Inr (on_prepare_call d st)"
| "server_on sid (C_ready_for_offer d) st = Inr (on_ready_for_offer d st)"
| "server_on sid (C_webrtc_offer d) st = Inr (on_webrtc_offer d st)"
| "server_on sid (C_webrtc_answer d) st = Inr (on_webrtc_answer d st)"
| "server_on sid (C_webrtc_ice_candidate d) st = Inr (on_webrtc_ice_candidate d st)"
| "server_on sid (C_end_call d) st = Inr (on_end_call d st)"

text \<open>The call-signaling events and the target each one names.\<close>

fun signaling :: "client_msg \<Rightarrow> signal option" where
  "signaling (C_call_user d) = Some d"
| "signaling (C_call_accepted d) = Some d"
| "signaling (C_prepare_call d) = Some d"
| "signaling (C_ready_for_offer d) = Some d"
| "signaling (C_webrtc_offer d) = Some d"
| "signaling (C_webrtc_answer d) = Some d"
| "signaling (C_webrtc_ice_candidate d) = Some d"
| "signaling (C_end_call d) = Some d"
| "signaling _ = None"

text \<open>How many deliveries of a list go to the socket \<open>t\<close>.\<close>

definition received :: "socket_id \<Rightarrow> delivery list \<Rightarrow> nat" where
  "received t ds = length (filter (\<lambda>(s, ev). s = t) ds)"

section \<open>The client: \<^verbatim>\<open>mern_chat_frontend/src/App.jsx\<close>\<close>

subsection \<open>The browser objects the client calls\<close>

text \<open>
  A media track (\<^verbatim>\<open>MediaStreamTrack\<close>): \<open>live\<close> until \<^verbatim>\<open>stop()\<close> is called on it.
  A \<^verbatim>\<open>MediaStream\<close> is the list of its tracks.
\<close>

record track =
  track_id :: nat
  kind :: media_kind
  live :: bool

definition stop :: "track \<Rightarrow> track" where
  "stop t = t\<lparr>live := False\<rparr>"

text \<open>
  \<^verbatim>\<open>MediaStream.addTrack\<close>: a track that is already in the stream is not added again.
\<close>

definition stream_addTrack :: "track \<Rightarrow> track list \<Rightarrow> track list" where
  "stream_addTrack t ts = (if track_id t \<in> track_id ` set ts then ts else ts @ [t])"

text \<open>
  \<^verbatim>\<open>navigator.mediaDevices.getUserMedia(constraints)\<close>: one track per kind asked for, or
  a rejection when the user or the device refuses (\<open>granted = False\<close>).
\<close>

record constraints =
  audio :: bool
  video :: bool

definition getUserMedia :: "constraints \<Rightarrow> bool \<Rightarrow> error + track list" where
  "getUserMedia cs granted =
     (if \<not> audio cs \<and> \<not> video cs then Inl TypeError
      else if \<not> granted then Inl NotAllowedError
      else Inr ((if audio cs then [\<lparr>track_id = 0, kind = Audio, live = True\<rparr>] else []) @
                (if video cs then [\<lparr>track_id = 1, kind = Video, live = True\<rparr>] else [])))"

text \<open>
  An \<^verbatim>\<open>RTCPeerConnection\<close>, as far as the client observes it: whether it is closed, its
  signaling state, its two descriptions, the kinds of the tracks attached with
  \<^verbatim>\<open>addTrack\<close>, and the remote candidates accepted by \<^verbatim>\<open>addIceCandidate\<close>, oldest
  first. The operations reject as the WebRTC specification says: every operation on a
  closed connection, a description that does not fit the signaling state, and a remote
  candidate while there is no remote description.
\<close>

datatype signaling_state = Stable | HaveLocalOffer | HaveRemoteOffer

record peer_connection =
  pc_closed :: bool
  signalingState :: signaling_state
  localDescription :: "description option"
  remoteDescription :: "description option"
  senders :: "media_kind list"
  iceCandidates :: "candidate list"

definition new_RTCPeerConnection :: peer_connection where
  "new_RTCPeerConnection =
     \<lparr>pc_closed = False, signalingState = Stable, localDescription = None,
      remoteDescription = None, senders = [], iceCandidates = []\<rparr>"

definition pc_close :: "peer_connection \<Rightarrow> peer_connection" where
  "pc_close p = p\<lparr>pc_closed := True\<rparr>"

text \<open>
  Applying a remote description makes the browser fire one \<^verbatim>\<open>track\<close> event for every
  track the description announces, before the promise of \<^verbatim>\<open>setRemoteDescription\<close>
  resolves. All announced tracks belong to one stream, so \<^verbatim>\<open>e.streams[0]\<close> holds all of
  them in each event. An event is given here as the tracks of \<^verbatim>\<open>e.streams[0]\<close>.
\<close>

definition remote_tracks :: "description \<Rightarrow> track list" where
  "remote_tracks d =
     map (\<lambda>(i, k). \<lparr>track_id = i, kind = k, live = True\<rparr>) (enumerate 0 (sdp_media d))"

definition track_events :: "description \<Rightarrow> track list list" where
  "track_events d = map (\<lambda>t. remote_tracks d) (remote_tracks d)"

text \<open>
  \<^verbatim>\<open>setRemoteDescription\<close> gives the connection with the description applied, and the
  \<^verbatim>\<open>track\<close> events fired meanwhile.
\<close>

definition setRemoteDescription ::
  "description \<Rightarrow> peer_connection \<Rightarrow> error + peer_connection \<times> track list list" where
  "setRemoteDescription d p =
     (if pc_closed p then Inl InvalidStateError
      else (case sdp_type d of
              Offer \<Rightarrow>
                Inr (p\<lparr>remoteDescription := Some d, signalingState := HaveRemoteOffer,
                       localDescription :=
                         (if signalingState p = HaveLocalOffer then None else localDescription p)\<rparr>,
                     track_events d)
            | Answer \<Rightarrow>
                if signalingState p = HaveLocalOffer
                then Inr (p\<lparr>remoteDescription := Some d, signalingState := Stable\<rparr>,
                          track_events d)
                else Inl InvalidStateError))"

definition setLocalDescription :: "description \<Rightarrow> peer_connection \<Rightarrow> error + peer_connection" where
  "setLocalDescription d p =
     (if pc_closed p then Inl InvalidStateError
      else (case sdp_type d of
              Offer \<Rightarrow>
                if signalingState p = HaveRemoteOffer then Inl InvalidStateError
                else Inr (p\<lparr>localDescription := Some d, signalingState := HaveLocalOffer\<rparr>)
            | Answer \<Rightarrow>
                if signalingState p = HaveRemoteOffer
                then Inr (p\<lparr>localDescription := Some d, signalingState := Stable\<rparr>)
                else Inl InvalidStateError))"

definition createOffer :: "peer_connection \<Rightarrow> error + description" where
  "createOffer p =
     (if pc_closed p then Inl InvalidStateError
      else Inr \<lparr>sdp_type = Offer, sdp_media = senders p\<rparr>)"

definition createAnswer :: "peer_connection \<Rightarrow> error + description" where
  "createAnswer p =
     (if pc_closed p \<or> signalingState p \<noteq> HaveRemoteOffer then Inl InvalidStateError
      else Inr \<lparr>sdp_type = Answer, sdp_media = senders p\<rparr>)"

definition addTrack :: "track \<Rightarrow> peer_connection \<Rightarrow> error + peer_connection" where
  "addTrack t p =
     (if pc_closed p then Inl InvalidStateError
      else Inr (p\<lparr>senders := senders p @ [kind t]\<rparr>))"

definition addIceCandidate :: "candidate \<Rightarrow> peer_connection \<Rightarrow> error + peer_connection" where
  "addIceCandidate cand p =
     (if pc_closed p \<or> remoteDescription p = None then Inl InvalidStateError
      else Inr (p\<lparr>iceCandidates := iceCandidates p @ [cand]\<rparr>))"

subsection \<open>The state of the client\<close>

text \<open>
  One instance of the component \<^verbatim>\<open>CallModal\<close>: its refs and its state variables. The
  \<^verbatim>\<open>RTCPeerConnection\<close> made by the mount effect is kept in \<open>pc\<close>; \<open>pc_current\<close> says
  whether the ref \<^verbatim>\<open>pc.current\<close> still points to it (the clean-up sets the ref to
  \<^verbatim>\<open>null\<close>). An instance that was unmounted is kept with \<open>mounted = False\<close>, so that
  the objects it held can still be looked at. The DOM refs (\<^verbatim>\<open>localRef\<close>, \<^verbatim>\<open>remoteRef\<close>,
  \<^verbatim>\<open>remoteAudioRef\<close>) and the mute, video and full-screen toggles are presentation and are
  left out.
\<close>

record call_modal =
  mounted :: bool
  pc :: peer_connection
  pc_current :: bool
  localStream :: "track list option"
  remoteStream :: "track list option"
  inCall :: bool
  incoming :: bool
  hasLocalStream :: bool

text \<open>The other party as \<^verbatim>\<open>ChatsPage\<close> keeps it: \<^verbatim>\<open>{_id, name}\<close>.\<close>

record peer =
  p_id :: "string option"
  p_name :: "string option"

text \<open>The names of the events a client listens to, and the listeners the code registers.\<close>

datatype event_name =
    E_connected | E_message_received | E_incoming_call | E_call_accepted | E_prepare_call
  | E_ready_for_offer | E_webrtc_offer | E_webrtc_answer | E_webrtc_ice_candidate
  | E_end_call | E_peer_disconnected

datatype handler =
    H_handleIncomingCall | H_handleCallAccepted | H_handleEndCall | H_handleMessage
  | H_handleOffer | H_handleAnswer | H_handleCandidate | H_handlePeerLeave
  | H_prepare_call | H_ready_for_offer_once nat

text \<open>
  The call state of \<^verbatim>\<open>ChatsPage\<close>, the \<^verbatim>\<open>CallModal\<close> instance it renders, and the
  listeners registered on the socket with \<^verbatim>\<open>socket.on\<close> and \<^verbatim>\<open>socket.once\<close>, in
  registration order. \<open>instance_no\<close> counts the \<^verbatim>\<open>CallModal\<close> instances mounted so far: a
  \<^verbatim>\<open>once\<close> listener belongs to the instance whose \<^verbatim>\<open>startCall\<close> registered it.
  \<open>permission\<close> is whether \<^verbatim>\<open>getUserMedia\<close> will be granted. The chat list and the
  message list of \<^verbatim>\<open>ChatsPage\<close> are not part of the call and are left out.
\<close>

record client =
  auth_user :: user
  permission :: bool
  activeChat :: "chat option"
  showCallModal :: bool
  caller :: "peer option"
  callee :: "peer option"
  callAccepted :: bool
  callType :: string
  modal :: "call_modal option"
  instance_no :: nat
  listeners :: "(event_name \<times> handler) list"

text \<open>What the client writes with \<^verbatim>\<open>console.error\<close>, and errors nothing catches.\<close>

datatype client_log =
    Err_handleOffer error
  | Err_handleAnswer error
  | Err_ice_candidate error
  | Err_startCall error
  | Unhandled error

type_synonym result = "client \<times> client_msg list \<times> client_log list"

text \<open>
  The socket listeners of \<^verbatim>\<open>ChatsPage\<close>, which stay registered as long as the page is
  shown, and the four that a \<^verbatim>\<open>CallModal\<close> registers on mount and removes in its clean-up.
\<close>

definition page_listeners :: "(event_name \<times> handler) list" where
  "page_listeners =
     [(E_incoming_call, H_handleIncomingCall), (E_call_accepted, H_handleCallAccepted),
      (E_end_call, H_handleEndCall), (E_message_received, H_handleMessage)]"

definition modal_listeners :: "(event_name \<times> handler) list" where
  "modal_listeners =
     [(E_webrtc_offer, H_handleOffer), (E_webrtc_answer, H_handleAnswer),
      (E_webrtc_ice_candidate, H_handleCandidate), (E_peer_disconnected, H_handlePeerLeave)]"

definition initial_client :: "user \<Rightarrow> bool \<Rightarrow> chat option \<Rightarrow> client" where
  "initial_client u granted ch =
     \<lparr>auth_user = u, permission = granted, activeChat = ch, showCallModal = False,
      caller = None, callee = None, callAccepted = False, callType = ''video'',
      modal = None, instance_no = 0, listeners = page_listeners\<rparr>"

subsection \<open>Mounting and unmounting \<^verbatim>\<open>CallModal\<close>\<close>

text \<open>
  The initial state of a new instance and its mount effects: a new peer connection, the
  four signaling listeners, and the \<^verbatim>\<open>prepare-call\<close> listener (which has no clean-up).
\<close>

definition mount :: "client \<Rightarrow> client" where
  "mount c =
     c\<lparr>modal := Some \<lparr>mounted = True, pc = new_RTCPeerConnection, pc_current = True,
                       localStream = None, remoteStream = None, inCall = False,
                       incoming = (caller c \<noteq> None), hasLocalStream = False\<rparr>,
       instance_no := instance_no c + 1,
       listeners := listeners c @ modal_listeners @ [(E_prepare_call, H_prepare_call)]\<rparr>"

text \<open>
  The clean-ups that run when the instance is unmounted: \<^verbatim>\<open>pc.current.close()\<close>,
  \<^verbatim>\<open>pc.current = null\<close>, and \<^verbatim>\<open>socket.off\<close> for the four signaling listeners. Nothing
  here touches the local stream.
\<close>

definition unmount :: "client \<Rightarrow> client" where
  "unmount c =
     (case modal c of
        None \<Rightarrow> c
      | Some m \<Rightarrow>
          c\<lparr>modal := Some (m\<lparr>mounted := False,
                                pc := (if pc_current m then pc_close (pc m) else pc m),
                                pc_current := False\<rparr>),
            listeners := filter (\<lambda>l. l \<notin> set modal_listeners) (listeners c)\<rparr>)"

definition modal_mounted :: "client \<Rightarrow> bool" where
  "modal_mounted c = (case modal c of None \<Rightarrow> False | Some m \<Rightarrow> mounted m)"

text \<open>
  React renders \<^verbatim>\<open>{showCallModal && <CallModal .../>}\<close> after a state change: the modal is
  mounted when the flag became true and unmounted when it became false.
\<close>

definition render :: "client \<Rightarrow> client" where
  "render c =
     (if showCallModal c then (if modal_mounted c then c else mount c)
      else (if modal_mounted c then unmount c else c))"

text \<open>
  The same after \<^verbatim>\<open>caller\<close> or \<^verbatim>\<open>callee\<close> was set to a new object: in an instance that
  stays mounted the effect that owns the peer connection runs again (its dependencies
  changed), closing the old connection and making a new one.
\<close>

definition render_props :: "client \<Rightarrow> client" where
  "render_props c =
     (if showCallModal c \<and> modal_mounted c
      then (case modal c of
              None \<Rightarrow> c
            | Some m \<Rightarrow> c\<lparr>modal := Some (m\<lparr>pc := new_RTCPeerConnection, pc_current := True\<rparr>)\<rparr>)
      else render c)"

subsection \<open>The functions of \<^verbatim>\<open>CallModal\<close>\<close>

text \<open>
  An \<^verbatim>\<open>async\<close> function is taken as one step, from its call to its end: what another
  event would do between two of its \<^verbatim>\<open>await\<close>s is not modelled. A \<^verbatim>\<open>try\<close> block is
  the chain of its steps; the state reached when a step throws stays as it is, and the
  \<^verbatim>\<open>catch\<close> writes the error to the console.

  Calling a method of \<^verbatim>\<open>pc.current\<close> throws a \<^verbatim>\<open>TypeError\<close> when the ref is \<^verbatim>\<open>null\<close>.
\<close>

definition pc_do :: "(peer_connection \<Rightarrow> error + peer_connection) \<Rightarrow> call_modal \<Rightarrow> error + call_modal" where
  "pc_do f m =
     (if \<not> pc_current m then Inl TypeError
      else (case f (pc m) of Inl e \<Rightarrow> Inl e | Inr p \<Rightarrow> Inr (m\<lparr>pc := p\<rparr>)))"

definition pc_get :: "(peer_connection \<Rightarrow> error + 'a) \<Rightarrow> call_modal \<Rightarrow> error + 'a" where
  "pc_get f m = (if \<not> pc_current m then Inl TypeError else f (pc m))"

text \<open>\<^verbatim>\<open>stream.getTracks().forEach((t) => pc.current.addTrack(t, stream))\<close>\<close>

fun addTracks :: "track list \<Rightarrow> call_modal \<Rightarrow> error + call_modal" where
  "addTracks [] m = Inr m"
| "addTracks (t # ts) m =
     (case pc_do (addTrack t) m of Inl e \<Rightarrow> Inl e | Inr m1 \<Rightarrow> addTracks ts m1)"

text \<open>\<^verbatim>\<open>{ audio: true, video: callType === "video" }\<close>\<close>

definition callConstraints :: "client \<Rightarrow> constraints" where
  "callConstraints c = \<lparr>audio = True, video = (callType c = ''video'')\<rparr>"

text \<open>
  The body of \<^verbatim>\<open>pc.current.ontrack\<close> (lines 168-179), as it acts on the ref
  \<^verbatim>\<open>remoteStream\<close>: the tracks of \<^verbatim>\<open>e.streams[0]\<close> are added to the remote stream,
  which is created when it does not exist. No state variable is set.
\<close>

definition ontrack_stream :: "track list \<Rightarrow> track list option \<Rightarrow> track list option" where
  "ontrack_stream ts r =
     Some (fold stream_addTrack ts (case r of None \<Rightarrow> [] | Some rs \<Rightarrow> rs))"

text \<open>
  \<^verbatim>\<open>await pc.current.setRemoteDescription(new RTCSessionDescription(data.offer))\<close>: a
  payload without the description makes the call throw. The \<^verbatim>\<open>track\<close> events that the
  browser fires while it applies the description run \<^verbatim>\<open>pc.current.ontrack\<close> before the
  \<^verbatim>\<open>await\<close> returns.
\<close>

definition set_remote :: "description option \<Rightarrow> call_modal \<Rightarrow> error + call_modal" where
  "set_remote d m =
     (case d of
        None \<Rightarrow> Inl TypeError
      | Some desc \<Rightarrow>
          if \<not> pc_current m then Inl TypeError
          else (case setRemoteDescription desc (pc m) of
                  Inl e \<Rightarrow> Inl e
                | Inr (p, events) \<Rightarrow>
                    Inr (m\<lparr>pc := p,
                           remoteStream := fold ontrack_stream events (remoteStream m)\<rparr>)))"

text \<open>\<^verbatim>\<open>callee?._id || caller?._id\<close>: the first operand unless it is falsy.\<close>

definition opt_id :: "peer option \<Rightarrow> string option" where
  "opt_id p = (case p of None \<Rightarrow> None | Some q \<Rightarrow> p_id q)"

definition or_else :: "string option \<Rightarrow> string option \<Rightarrow> string option" where
  "or_else a b = (if a = None \<or> a = Some [] then b else a)"

definition peer_id :: "client \<Rightarrow> string option" where
  "peer_id c = or_else (opt_id (callee c)) (opt_id (caller c))"

text \<open>\<^verbatim>\<open>pc.current.onicecandidate\<close> (lines 158-166).\<close>

definition onicecandidate :: "candidate option \<Rightarrow> client \<Rightarrow> result" where
  "onicecandidate cand c =
     (case cand of
        None \<Rightarrow> (c, [], [])
      | Some x \<Rightarrow>
          (c, [C_webrtc_ice_candidate
                 (no_signal\<lparr>sig_to := peer_id c, sig_from := Some (uid (auth_user c)),
                    sig_candidate := Some x\<rparr>)], []))"

text \<open>
  \<^verbatim>\<open>pc.current.ontrack\<close> called on its own, with the tracks of \<^verbatim>\<open>e.streams[0]\<close>.
\<close>

definition ontrack :: "track list \<Rightarrow> client \<Rightarrow> result" where
  "ontrack ts c =
     (case modal c of
        None \<Rightarrow> (c, [], [])
      | Some m \<Rightarrow>
          (c\<lparr>modal := Some (m\<lparr>remoteStream := ontrack_stream ts (remoteStream m)\<rparr>)\<rparr>, [], []))"

text \<open>\<^verbatim>\<open>handleOffer\<close> (lines 210-229).\<close>

definition handleOffer :: "signal \<Rightarrow> client \<Rightarrow> result" where
  "handleOffer d c =
     (case modal c of
        None \<Rightarrow> (c, [], [])
      | Some m \<Rightarrow>
     (case set_remote (sig_offer d) m of
        Inl e \<Rightarrow> (c, [], [Err_handleOffer e])
      | Inr m1 \<Rightarrow>
     (case getUserMedia (callConstraints c) (permission c) of
        Inl e \<Rightarrow> (c\<lparr>modal := Some m1\<rparr>, [], [Err_handleOffer e])
      | Inr stream \<Rightarrow>
     (case addTracks stream (m1\<lparr>localStream := Some stream, hasLocalStream := True\<rparr>) of
        Inl e \<Rightarrow> (c\<lparr>modal := Some (m1\<lparr>localStream := Some stream, hasLocalStream := True\<rparr>)\<rparr>,
                  [], [Err_handleOffer e])
      | Inr m2 \<Rightarrow>
     (case pc_get createAnswer m2 of
        Inl e \<Rightarrow> (c\<lparr>modal := Some m2\<rparr>, [], [Err_handleOffer e])
      | Inr answer \<Rightarrow>
     (case pc_do (setLocalDescription answer) m2 of
        Inl e \<Rightarrow> (c\<lparr>modal := Some m2\<rparr>, [], [Err_handleOffer e])
      | Inr m3 \<Rightarrow>
          (c\<lparr>modal := Some (m3\<lparr>inCall := True\<rparr>)\<rparr>,
           [C_webrtc_answer
              (no_signal\<lparr>sig_to := sig_from d, sig_from := Some (uid (auth_user c)),
                 sig_answer := Some answer\<rparr>)], [])))))))"

text \<open>
  \<^verbatim>\<open>handleAnswer\<close> (lines 231-244). After \<^verbatim>\<open>setInCall(true)\<close> it only builds a stream
  from the receivers for the remote video element.
\<close>

definition handleAnswer :: "signal \<Rightarrow> client \<Rightarrow> result" where
  "handleAnswer d c =
     (case modal c of
        None \<Rightarrow> (c, [], [])
      | Some m \<Rightarrow>
          (case set_remote (sig_answer d) m of
             Inl e \<Rightarrow> (c, [], [Err_handleAnswer e])
           | Inr m1 \<Rightarrow> (c\<lparr>modal := Some (m1\<lparr>inCall := True\<rparr>)\<rparr>, [], [])))"

text \<open>\<^verbatim>\<open>handleCandidate\<close> (lines 246-256).\<close>

definition handleCandidate :: "signal \<Rightarrow> client \<Rightarrow> result" where
  "handleCandidate d c =
     (case modal c of
        None \<Rightarrow> (c, [], [])
      | Some m \<Rightarrow>
          (case sig_candidate d of
             None \<Rightarrow> (c, [], [])
           | Some cand \<Rightarrow>
               (case pc_do (addIceCandidate cand) m of
                  Inl e \<Rightarrow> (c, [], [Err_ice_candidate e])
                | Inr m1 \<Rightarrow> (c\<lparr>modal := Some m1\<rparr>, [], []))))"

text \<open>
  \<^verbatim>\<open>startCall\<close> (lines 276-293), which the effect of lines 323-327 schedules once
  \<^verbatim>\<open>callee && callAccepted && !inCall\<close> holds. Its last statement registers the
  \<^verbatim>\<open>once\<close> listener for \<^verbatim>\<open>ready-for-offer\<close>. The function reads \<open>callee\<close> from the
  state it runs in; the timer of the code calls the \<^verbatim>\<open>startCall\<close> of the render that set
  it, which differs only when the callee was replaced within those 100 ms.
\<close>

definition startCall_scheduled :: "client \<Rightarrow> bool" where
  "startCall_scheduled c =
     (case modal c of
        None \<Rightarrow> False
      | Some m \<Rightarrow> mounted m \<and> callee c \<noteq> None \<and> callAccepted c \<and> \<not> inCall m)"

definition startCall :: "client \<Rightarrow> result" where
  "startCall c =
     (case modal c of
        None \<Rightarrow> (c, [], [])
      | Some m \<Rightarrow>
     (case getUserMedia (callConstraints c) (permission c) of
        Inl e \<Rightarrow> (c, [], [Err_startCall e])
      | Inr stream \<Rightarrow>
     (case addTracks stream (m\<lparr>localStream := Some stream, hasLocalStream := True\<rparr>) of
        Inl e \<Rightarrow> (c\<lparr>modal := Some (m\<lparr>localStream := Some stream, hasLocalStream := True\<rparr>)\<rparr>,
                  [], [Err_startCall e])
      | Inr m1 \<Rightarrow>
     (case callee c of
        None \<Rightarrow> (c\<lparr>modal := Some m1\<rparr>, [], [Err_startCall TypeError])
      | Some p \<Rightarrow>
          (c\<lparr>modal := Some m1,
             listeners := listeners c @
               [(E_ready_for_offer, H_ready_for_offer_once (instance_no c))]\<rparr>,
           [C_prepare_call (no_signal\<lparr>sig_to := p_id p, sig_from := Some (uid (auth_user c))\<rparr>)],
           [])))))"

text \<open>
  The callback given to \<^verbatim>\<open>socket.once("ready-for-offer", ...)\<close> (lines 285-289) by the
  instance number \<open>n\<close>. \<^verbatim>\<open>once\<close> removes the listener before it calls it. The callback has
  no \<^verbatim>\<open>try\<close>: what it throws is an unhandled rejection. The \<^verbatim>\<open>pc.current\<close> of an instance
  that is not the current one is \<^verbatim>\<open>null\<close>.
\<close>

definition ready_for_offer_once :: "nat \<Rightarrow> client \<Rightarrow> result" where
  "ready_for_offer_once n c =
     (let c0 = c\<lparr>listeners :=
                  remove1 (E_ready_for_offer, H_ready_for_offer_once n) (listeners c)\<rparr> in
      if n \<noteq> instance_no c then (c0, [], [Unhandled TypeError])
      else
     (case modal c of
        None \<Rightarrow> (c0, [], [Unhandled TypeError])
      | Some m \<Rightarrow>
     (case pc_get createOffer m of
        Inl e \<Rightarrow> (c0, [], [Unhandled e])
      | Inr offer \<Rightarrow>
     (case pc_do (setLocalDescription offer) m of
        Inl e \<Rightarrow> (c0, [], [Unhandled e])
      | Inr m1 \<Rightarrow>
     (case callee c of
        None \<Rightarrow> (c0\<lparr>modal := Some m1\<rparr>, [], [Unhandled TypeError])
      | Some p \<Rightarrow>
          (c0\<lparr>modal := Some m1\<rparr>,
           [C_webrtc_offer
              (no_signal\<lparr>sig_to := p_id p, sig_from := Some (uid (auth_user c)),
                 sig_offer := Some offer\<rparr>)], []))))))"

text \<open>The \<^verbatim>\<open>prepare-call\<close> listener (lines 298-300).\<close>

definition prepare_call_listener :: "signal \<Rightarrow> client \<Rightarrow> result" where
  "prepare_call_listener d c = (c, [C_ready_for_offer (no_signal\<lparr>sig_to := sig_from d\<rparr>)], [])"

text \<open>\<^verbatim>\<open>acceptCall\<close> (lines 304-307).\<close>

definition acceptCall :: "client \<Rightarrow> result" where
  "acceptCall c =
     (case caller c of
        None \<Rightarrow> (c, [], [Unhandled TypeError])
      | Some p \<Rightarrow>
          (c\<lparr>modal := map_option (\<lambda>m. m\<lparr>incoming := False\<rparr>) (modal c)\<rparr>,
           [C_call_accepted (no_signal\<lparr>sig_to := p_id p, sig_from := Some (uid (auth_user c))\<rparr>)],
           []))"

subsection \<open>The functions of \<^verbatim>\<open>ChatsPage\<close>\<close>

text \<open>\<^verbatim>\<open>closeCall\<close> (lines 786-791).\<close>

definition closeCall :: "client \<Rightarrow> client" where
  "closeCall c = c\<lparr>showCallModal := False, caller := None, callee := None, callAccepted := False\<rparr>"

text \<open>
  \<^verbatim>\<open>endCall\<close> of \<^verbatim>\<open>CallModal\<close> (lines 310-320); its \<^verbatim>\<open>onClose\<close> is \<^verbatim>\<open>closeCall\<close>.
  The function reads \<open>caller\<close> and \<open>callee\<close> from the state it runs in; called by
  \<^verbatim>\<open>handlePeerLeave\<close>, the code reads those of the render that registered the listener,
  which differ only when an incoming call replaced them while the modal was mounted.
\<close>

definition endCall :: "client \<Rightarrow> result" where
  "endCall c =
     (case modal c of
        None \<Rightarrow> (c, [], [])
      | Some m \<Rightarrow>
          (closeCall
             (c\<lparr>modal := Some (m\<lparr>pc := (if pc_current m then pc_close (pc m) else pc m),
                                   localStream := map_option (map stop) (localStream m),
                                   remoteStream := map_option (map stop) (remoteStream m)\<rparr>)\<rparr>),
           [C_end_call (no_signal\<lparr>sig_to := peer_id c\<rparr>)], []))"

text \<open>\<^verbatim>\<open>initiateCall\<close> (lines 793-809).\<close>

definition initiateCall :: "string \<Rightarrow> client \<Rightarrow> result" where
  "initiateCall type c =
     (case activeChat c of
        None \<Rightarrow> (c, [], [])
      | Some ch \<Rightarrow>
     (case users ch of
        None \<Rightarrow> (c, [], [Unhandled TypeError])
      | Some us \<Rightarrow>
     (case find (\<lambda>u. uid u \<noteq> uid (auth_user c)) us of
        None \<Rightarrow> (c, [], [])
      | Some otherUser \<Rightarrow>
          (c\<lparr>callType := type,
             callee := Some \<lparr>p_id = Some (uid otherUser), p_name = Some (uname otherUser)\<rparr>,
             callAccepted := False, showCallModal := True\<rparr>,
           [C_call_user
              (no_signal\<lparr>sig_to := Some (uid otherUser), sig_from := Some (uid (auth_user c)),
                 sig_name := Some (uname (auth_user c)), sig_callType := Some type\<rparr>)],
           []))))"

text \<open>\<^verbatim>\<open>handleIncomingCall\<close> (lines 815-821); \<^verbatim>\<open>callType || 'video'\<close>.\<close>

definition handleIncomingCall :: "signal \<Rightarrow> client \<Rightarrow> client" where
  "handleIncomingCall d c =
     c\<lparr>caller := Some \<lparr>p_id = sig_from d, p_name = sig_name d\<rparr>,
       callType := (case sig_callType d of
                      None \<Rightarrow> ''video''
                    | Some t \<Rightarrow> if t = [] then ''video'' else t),
       callee := None, callAccepted := False, showCallModal := True\<rparr>"

text \<open>\<^verbatim>\<open>handleCallAccepted\<close> (lines 823-825) and \<^verbatim>\<open>handleEndCall\<close> (lines 827-829).\<close>

definition handleCallAccepted :: "client \<Rightarrow> client" where
  "handleCallAccepted c = c\<lparr>callAccepted := True\<rparr>"

definition handleEndCall :: "client \<Rightarrow> client" where
  "handleEndCall c = closeCall c"

subsection \<open>Receiving an event\<close>

fun event_name_of :: "server_msg \<Rightarrow> event_name" where
  "event_name_of S_connected = E_connected"
| "event_name_of (S_message_received m) = E_message_received"
| "event_name_of (S_incoming_call d) = E_incoming_call"
| "event_name_of (S_call_accepted d) = E_call_accepted"
| "event_name_of (S_prepare_call d) = E_prepare_call"
| "event_name_of (S_ready_for_offer d) = E_ready_for_offer"
| "event_name_of (S_webrtc_offer d) = E_webrtc_offer"
| "event_name_of (S_webrtc_answer d) = E_webrtc_answer"
| "event_name_of (S_webrtc_ice_candidate d) = E_webrtc_ice_candidate"
| "event_name_of (S_end_call d) = E_end_call"
| "event_name_of (S_peer_disconnected s) = E_peer_disconnected"

fun payload :: "server_msg \<Rightarrow> signal" where
  "payload (S_incoming_call d) = d"
| "payload (S_call_accepted d) = d"
| "payload (S_prepare_call d) = d"
| "payload (S_ready_for_offer d) = d"
| "payload (S_webrtc_offer d) = d"
| "payload (S_webrtc_answer d) = d"
| "payload (S_webrtc_ice_candidate d) = d"
| "payload (S_end_call d) = d"
| "payload _ = no_signal"

text \<open>A function that changed the state of \<^verbatim>\<open>ChatsPage\<close> is followed by a render.\<close>

definition committed :: "result \<Rightarrow> result" where
  "committed r = (case r of (c, es, ls) \<Rightarrow> (render c, es, ls))"

text \<open>
  One listener called with an event. \<^verbatim>\<open>handlePeerLeave\<close> (lines 258-260) is \<^verbatim>\<open>endCall\<close>.
  The listener for \<^verbatim>\<open>message received\<close> changes the chat list and the message list only.
\<close>

fun run_handler :: "handler \<Rightarrow> server_msg \<Rightarrow> client \<Rightarrow> result" where
  "run_handler H_handleIncomingCall ev c = (render_props (handleIncomingCall (payload ev) c), [], [])"
| "run_handler H_handleCallAccepted ev c = (render (handleCallAccepted c), [], [])"
| "run_handler H_handleEndCall ev c = (render (handleEndCall c), [], [])"
| "run_handler H_handleMessage ev c = (c, [], [])"
| "run_handler H_handleOffer ev c = handleOffer (payload ev) c"
| "run_handler H_handleAnswer ev c = handleAnswer (payload ev) c"
| "run_handler H_handleCandidate ev c = handleCandidate (payload ev) c"
| "run_handler H_handlePeerLeave ev c = committed (endCall c)"
| "run_handler H_prepare_call ev c = prepare_call_listener (payload ev) c"
| "run_handler (H_ready_for_offer_once n) ev c = ready_for_offer_once n c"

fun run_all :: "handler list \<Rightarrow> server_msg \<Rightarrow> client \<Rightarrow> result" where
  "run_all [] ev c = (c, [], [])"
| "run_all (h # hs) ev c =
     (case run_handler h ev c of
        (c1, es1, ls1) \<Rightarrow>
          (case run_all hs ev c1 of (c2, es2, ls2) \<Rightarrow> (c2, es1 @ es2, ls1 @ ls2)))"

text \<open>
  The socket calls the listeners that are registered under the name of the event when it
  arrives, in registration order.
\<close>

definition socket_recv :: "server_msg \<Rightarrow> client \<Rightarrow> result" where
  "socket_recv ev c =
     run_all (map snd (filter (\<lambda>l. fst l = event_name_of ev) (listeners c))) ev c"

text \<open>The buttons of the modal: Accept, and Decline or End.\<close>

definition click_accept :: "client \<Rightarrow> result" where
  "click_accept c = acceptCall c"

definition click_end :: "client \<Rightarrow> result" where
  "click_end c = committed (endCall c)"

text \<open>
  A call button. When \<^verbatim>\<open>initiateCall\<close> returned early it set nothing and sent nothing, and
  nothing is rendered.
\<close>

definition click_call :: "string \<Rightarrow> client \<Rightarrow> result" where
  "click_call type c =
     (case initiateCall type c of
        (c1, es, ls) \<Rightarrow> (if es = [] then c1 else render_props c1, es, ls))"

subsection \<open>The end of a call\<close>

text \<open>
  The code has no phase variable. A call is over when \<^verbatim>\<open>closeCall\<close> has run and the modal
  is unmounted: the modal is not shown, there is no caller and no callee, and
  \<^verbatim>\<open>callAccepted\<close> is false.
\<close>

definition ended :: "client \<Rightarrow> bool" where
  "ended c =
     (\<not> showCallModal c \<and> caller c = None \<and> callee c = None \<and> \<not> callAccepted c
      \<and> \<not> modal_mounted c)"

text \<open>The events that may still arrive for a call that is over.\<close>

fun stray :: "server_msg \<Rightarrow> bool" where
  "stray (S_end_call d) = True"
| "stray (S_webrtc_offer d) = True"
| "stray (S_webrtc_answer d) = True"
| "stray (S_webrtc_ice_candidate d) = True"
| "stray _ = False"

text \<open>
  What the registrations and removals of the code keep true of the listener table: a
  listener is one of \<^verbatim>\<open>ChatsPage\<close>, or one of the four of a mounted \<^verbatim>\<open>CallModal\<close>,
  or a \<^verbatim>\<open>prepare-call\<close> listener, or a \<^verbatim>\<open>once\<close> listener for \<^verbatim>\<open>ready-for-offer\<close>.
\<close>

fun once_listener :: "event_name \<times> handler \<Rightarrow> bool" where
  "once_listener (E_ready_for_offer, H_ready_for_offer_once n) = True"
| "once_listener _ = False"

definition listener_ok :: "client \<Rightarrow> event_name \<times> handler \<Rightarrow> bool" where
  "listener_ok c l =
     (l \<in> set page_listeners \<or> (l \<in> set modal_listeners \<and> modal_mounted c)
      \<or> l = (E_prepare_call, H_prepare_call) \<or> once_listener l)"

definition listeners_ok :: "client \<Rightarrow> bool" where
  "listeners_ok c = list_all (listener_ok c) (listeners c)"

text \<open>
  The states a client can be in: it starts with the listeners of \<^verbatim>\<open>ChatsPage\<close>, and then
  events arrive from the server, the user presses buttons and opens chats, the timer set
  by the effect of lines 323-327 calls \<^verbatim>\<open>startCall\<close>, and the peer connection reports
  tracks and candidates. The modal shows Accept while \<^verbatim>\<open>incoming\<close> is true, and Decline
  or End always; it covers the page, so the call buttons can be pressed only while it is
  not shown. The timer fires 100 ms after it was set, in whatever state the client is
  then.
\<close>

definition accept_shown :: "client \<Rightarrow> bool" where
  "accept_shown c = (case modal c of None \<Rightarrow> False | Some m \<Rightarrow> mounted m \<and> incoming m)"

inductive reachable :: "client \<Rightarrow> bool" where
  start: "reachable (initial_client u granted ch)"
| recv: "reachable c \<Longrightarrow> reachable (fst (socket_recv ev c))"
| accept: "reachable c \<Longrightarrow> accept_shown c \<Longrightarrow> reachable (fst (click_accept c))"
| hang_up: "reachable c \<Longrightarrow> modal_mounted c \<Longrightarrow> reachable (fst (click_end c))"
| call: "reachable c \<Longrightarrow> \<not> showCallModal c \<Longrightarrow> reachable (fst (click_call type c))"
| timer: "reachable c \<Longrightarrow> reachable (fst (startCall c))"
| track: "reachable c \<Longrightarrow> reachable (fst (ontrack ts c))"
| ice: "reachable c \<Longrightarrow> reachable (fst (onicecandidate cand c))"
| open_chat: "reachable c \<Longrightarrow> reachable (c\<lparr>activeChat := ch\<rparr>)"
| permit: "reachable c \<Longrightarrow> reachable (c\<lparr>permission := granted\<rparr>)"

subsection \<open>A call between two users, step by step\<close>

definition ann :: user where
  "ann = \<lparr>uid = ''u1'', uname = ''Ann''\<rparr>"

definition bob :: user where
  "bob = \<lparr>uid = ''u2'', uname = ''Bob''\<rparr>"

definition chat1 :: chat where
  "chat1 = \<lparr>chat_id = ''c1'', users = Some [ann, bob]\<rparr>"

text \<open>Ann opens the chat with Bob and presses the video button; Bob's client shows the call.\<close>

definition ann_dialing :: client where
  "ann_dialing = fst (click_call ''video'' (initial_client ann True (Some chat1)))"

definition bob_ringing :: client where
  "bob_ringing =
     fst (socket_recv
            (S_incoming_call (no_signal\<lparr>sig_from := Some ''u1'', sig_name := Some ''Ann'',
               sig_callType := Some ''video''\<rparr>))
            (initial_client bob True None))"

text \<open>Bob accepts; Ann's client gets the accept and runs \<^verbatim>\<open>startCall\<close>.\<close>

definition bob_accepted :: client where
  "bob_accepted = fst (click_accept bob_ringing)"

definition ann_accepted :: client where
  "ann_accepted = fst (socket_recv (S_call_accepted (no_signal\<lparr>sig_from := Some ''u2''\<rparr>)) ann_dialing)"

definition ann_prepared :: client where
  "ann_prepared = fst (startCall ann_accepted)"

text \<open>Bob's reply \<^verbatim>\<open>ready-for-offer\<close> arrives; Ann's client sends the offer.\<close>

definition ann_offering :: client where
  "ann_offering = fst (socket_recv (S_ready_for_offer no_signal) ann_prepared)"

definition the_offer :: signal where
  "the_offer = no_signal\<lparr>sig_to := Some ''u2'', sig_from := Some ''u1'',
     sig_offer := Some \<lparr>sdp_type = Offer, sdp_media = [Audio, Video]\<rparr>\<rparr>"

definition bob_answered :: client where
  "bob_answered = fst (socket_recv (S_webrtc_offer the_offer) bob_accepted)"

definition the_answer :: signal where
  "the_answer = no_signal\<lparr>sig_to := Some ''u1'', sig_from := Some ''u2'',
     sig_answer := Some \<lparr>sdp_type = Answer, sdp_media = [Audio, Video]\<rparr>\<rparr>"

definition ann_answered :: client where
  "ann_answered = fst (socket_recv (S_webrtc_answer the_answer) ann_offering)"

text \<open>An answer of a peer that accepts the call and sends no media of its own.\<close>

definition silent_answer :: signal where
  "silent_answer = no_signal\<lparr>sig_to := Some ''u1'', sig_from := Some ''u2'',
     sig_answer := Some \<lparr>sdp_type = Answer, sdp_media = []\<rparr>\<rparr>"

definition ann_silent :: client where
  "ann_silent = fst (socket_recv (S_webrtc_answer silent_answer) ann_offering)"

text \<open>The call ends for Bob: Ann's \<^verbatim>\<open>end-call\<close> arrives, or Bob presses End himself.\<close>

definition bob_remote_end :: client where
  "bob_remote_end = fst (socket_recv (S_end_call (no_signal\<lparr>sig_to := Some ''u2''\<rparr>)) bob_answered)"

definition bob_hung_up :: client where
  "bob_hung_up = fst (click_end bob_answered)"

text \<open>A candidate of Ann's that reaches Bob's client while it still rings.\<close>

definition early_candidate :: signal where
  "early_candidate = no_signal\<lparr>sig_to := Some ''u2'', sig_from := Some ''u1'',
     sig_candidate := Some (Candidate ''a'')\<rparr>"

text \<open>Server states and messages used as examples.\<close>

definition hi :: message where
  "hi = \<lparr>chat = Some chat1, sender = Some ann, content = ''hi''\<rparr>"

definition unaddressed :: message where
  "unaddressed = \<lparr>chat = Some \<lparr>chat_id = ''c1'', users = Some []\<rparr>, sender = Some ann,
     content = ''hi''\<rparr>"

definition two_devices :: server where
  "two_devices = [(''s1'', [''s1'', ''u1'']), (''s2'', [''s2'', ''u2'']), (''s3'', [''s3'', ''u2''])]"

definition two_chats :: server where
  "two_chats = [(''s1'', [''s1'', ''u1'', ''c1'', ''c2'']), (''s2'', [''s2'', ''u2'', ''c1'', ''c2''])]"

section \<open>Properties of the relay\<close>

lemma set_add_idem: "set_add r (set_add r rs) = set_add r rs"
  by (simp add: set_add_def)

lemma set_set_add: "set (set_add r rs) = insert r (set rs)"
  by (auto simp: set_add_def)

lemma socket_join_idem: "socket_join s r (socket_join s r st) = socket_join s r st"
  by (induction st) (auto simp: set_add_idem)

lemma map_fst_socket_join: "map fst (socket_join s r st) = map fst st"
  by (induction st) auto

lemma io_to_Nil: "io_to [] r = []"
  by (cases r) simp_all

lemma io_to_Cons:
  "io_to ((s, rs) # st) (Some r) = (if r \<in> set rs then s # io_to st (Some r) else io_to st (Some r))"
  by simp

lemma io_to_subset: "set (io_to st r) \<subseteq> fst ` set st"
  by (cases r) auto

lemma io_to_socket_join_same:
  "set (io_to (socket_join s r st) (Some r)) = set (io_to st (Some r)) \<union> ({s} \<inter> fst ` set st)"
proof (induction st)
  case Nil
  show ?case by simp
next
  case (Cons p st)
  obtain a rs where p: "p = (a, rs)" by (cases p)
  show ?case using Cons.IH unfolding p
    by (simp only: socket_join.simps io_to_Cons set_set_add split: if_splits) auto
qed

lemma io_to_socket_join_other:
  "r' \<noteq> r \<Longrightarrow> io_to (socket_join s r st) (Some r') = io_to st (Some r')"
proof (induction st)
  case Nil
  show ?case by simp
next
  case (Cons p st)
  obtain a rs where p: "p = (a, rs)" by (cases p)
  show ?case using Cons unfolding p
    by (simp only: socket_join.simps io_to_Cons set_set_add split: if_splits) auto
qed

declare io_to.simps(2) [simp del]
declare io_to_Nil [simp] io_to_Cons [simp]

lemma distinct_io_to: "distinct (map fst st) \<Longrightarrow> distinct (io_to st r)"
  by (cases r) (auto simp: distinct_map_filter io_to.simps(2))

lemma received_append: "received t (xs @ ys) = received t xs + received t ys"
  by (simp add: received_def)

lemma received_Nil: "received t [] = 0"
  by (simp add: received_def)

lemma received_emit_filter:
  "received t (io_to_emit st r ev) = length (filter (\<lambda>s. s = t) (io_to st r))"
  by (simp add: received_def io_to_emit_def filter_map comp_def)

lemma length_filter_eq_distinct:
  "distinct xs \<Longrightarrow> length (filter (\<lambda>s. s = t) xs) = (if t \<in> set xs then 1 else 0)"
  by (induction xs) auto

lemma received_emit:
  "distinct (map fst st) \<Longrightarrow>
     received t (io_to_emit st r ev) = (if t \<in> set (io_to st r) then 1 else 0)"
  by (simp add: received_emit_filter length_filter_eq_distinct distinct_io_to)

lemma io_to_mem:
  "distinct (map fst st) \<Longrightarrow> t \<in> set (io_to st (Some r)) \<longleftrightarrow> r \<in> set (socket_rooms st t)"
proof (induction st)
  case Nil
  show ?case by (simp add: socket_rooms_def)
next
  case (Cons p st)
  obtain a rs where p: "p = (a, rs)" by (cases p)
  have "t = a \<Longrightarrow> t \<notin> set (io_to st (Some r))"
    using Cons.prems io_to_subset[of st "Some r"] unfolding p by auto
  then show ?case using Cons unfolding p
    by (auto simp: socket_rooms_def)
qed

text \<open>
  Claim C9. Joining a room is idempotent: for every connected session and room, the
  handler of \<^verbatim>\<open>join chat\<close> run a second time leaves the state as the first run left
  it, and a broadcast to that room then delivers exactly one event to the session.
\<close>

theorem joinRoom_idempotent:
  assumes "distinct (map fst st)" and "s \<in> fst ` set st"
  shows "fst (on_join_chat s r (fst (on_join_chat s r st))) = fst (on_join_chat s r st)
       \<and> received s (io_to_emit (fst (on_join_chat s r (fst (on_join_chat s r st)))) (Some r) ev) = 1"
proof -
  have d: "distinct (map fst (socket_join s r st))"
    using assms(1) by (simp add: map_fst_socket_join)
  have "s \<in> set (io_to (socket_join s r st) (Some r))"
    using assms(2) io_to_socket_join_same[of s r st] by blast
  then have "received s (io_to_emit (socket_join s r st) (Some r) ev) = 1"
    using d by (simp add: received_emit)
  then show ?thesis
    by (simp add: on_join_chat_def socket_join_idem)
qed

text \<open>
  Claim C10. For each of the eight call-signaling events, when the room named by
  \<^verbatim>\<open>data.to\<close> has no socket, the handler delivers nothing to anyone (the sender
  included: no error, no acknowledgement), writes nothing, throws nothing and leaves
  the state as it was.
\<close>

theorem relay_offline_target:
  assumes "signaling ev = Some d" and "io_to st (sig_to d) = []"
  shows "server_on sid ev st = Inr (st, [], [])"
  using assms
  by (cases ev)
     (simp_all add: io_to_emit_def on_call_user_def on_call_accepted_def on_prepare_call_def
        on_ready_for_offer_def on_webrtc_offer_def on_webrtc_answer_def
        on_webrtc_ice_candidate_def on_end_call_def)

text \<open>
  Witness for C10: \<open>u1\<close> dials \<open>u2\<close>, who has no session.
\<close>

theorem relay_offline_target_witness:
  "signaling (C_call_user (no_signal\<lparr>sig_to := Some ''u2'', sig_from := Some ''u1''\<rparr>))
     = Some (no_signal\<lparr>sig_to := Some ''u2'', sig_from := Some ''u1''\<rparr>)
   \<and> io_to [(''s1'', [''s1'', ''u1''])] (sig_to (no_signal\<lparr>sig_to := Some ''u2'', sig_from := Some ''u1''\<rparr>)) = []
   \<and> server_on ''s1'' (C_call_user (no_signal\<lparr>sig_to := Some ''u2'', sig_from := Some ''u1''\<rparr>))
        [(''s1'', [''s1'', ''u1''])] = Inr ([(''s1'', [''s1'', ''u1''])], [], [])"
proof -
  have a: "signaling (C_call_user (no_signal\<lparr>sig_to := Some ''u2'', sig_from := Some ''u1''\<rparr>))
     = Some (no_signal\<lparr>sig_to := Some ''u2'', sig_from := Some ''u1''\<rparr>)" by simp
  have b: "io_to [(''s1'', [''s1'', ''u1''])] (sig_to (no_signal\<lparr>sig_to := Some ''u2'', sig_from := Some ''u1''\<rparr>)) = []"
    by simp
  show ?thesis using a b relay_offline_target[OF a b, of "''s1''"] by simp
qed

lemma deliver_Some:
  "sender m = Some sd \<Longrightarrow>
   deliver st m us =
     Inr (concat (map (\<lambda>u. io_to_emit st (Some (uid u)) (S_message_received m))
            (filter (\<lambda>u. uid u \<noteq> uid sd) us)))"
  by (induction us) simp_all

lemma length_others:
  "distinct (map uid us) \<Longrightarrow> x \<in> set (map uid us) \<Longrightarrow>
   length (filter (\<lambda>u. uid u \<noteq> x) us) = length us - 1"
proof (induction us)
  case Nil
  then show ?case by simp
next
  case (Cons u us)
  show ?case
  proof (cases "uid u = x")
    case True
    then have "x \<notin> set (map uid us)" using Cons.prems(1) by auto
    then have "filter (\<lambda>u. uid u \<noteq> x) us = us" by (auto simp: filter_id_conv)
    with True show ?thesis by simp
  next
    case False
    then have mem: "x \<in> set (map uid us)" using Cons.prems(2) by auto
    then have "us \<noteq> []" by auto
    then have "0 < length us" by simp
    moreover have "length (filter (\<lambda>u. uid u \<noteq> x) us) = length us - 1"
      using Cons.IH Cons.prems(1) mem by simp
    ultimately show ?thesis using False by simp
  qed
qed

lemma received_concat_emit:
  "distinct (map fst st) \<Longrightarrow>
   received t (concat (map (\<lambda>u. io_to_emit st (Some (f u)) ev) xs)) =
     length (filter (\<lambda>u. f u \<in> set (socket_rooms st t)) xs)"
  by (induction xs) (simp_all add: received_Nil received_append received_emit io_to_mem)

lemma length_concat_emit:
  "length (concat (map (\<lambda>u. io_to_emit st (Some (f u)) ev) xs)) =
     sum_list (map (\<lambda>u. length (io_to st (Some (f u)))) xs)"
  by (induction xs) (simp_all add: io_to_emit_def)

lemma sum_list_ones:
  "(\<And>x. x \<in> set xs \<Longrightarrow> g x = (1::nat)) \<Longrightarrow> sum_list (map g xs) = length xs"
  by (induction xs) simp_all

lemma deliver_socket_join:
  "r \<notin> uid ` set us \<Longrightarrow> deliver (socket_join s r st) m us = deliver st m us"
  by (induction us) (auto simp: io_to_emit_def io_to_socket_join_other split: option.splits sum.splits)

lemma emits_Some:
  "sender m = Some sd \<Longrightarrow>
   emits m us = Inr (map (\<lambda>u. (uid u, S_message_received m)) (filter (\<lambda>u. uid u \<noteq> uid sd) us))"
  by (induction us) simp_all

lemma deliver_emits:
  "deliver st m us =
     (case emits m us of
        Inl e \<Rightarrow> Inl e
      | Inr es \<Rightarrow> Inr (concat (map (\<lambda>(r, ev). io_to_emit st (Some r) ev) es)))"
  by (induction us) (simp_all split: option.split sum.split)

lemma others_rooms:
  "distinct (map uid us) \<Longrightarrow>
   distinct (map uid (filter (\<lambda>u. uid u \<noteq> x) us)) \<and>
   set (map uid (filter (\<lambda>u. uid u \<noteq> x) us)) = uid ` set us - {x}"
  by (auto simp: distinct_map_filter)

text \<open>
  Claim C2. An event is one call \<^verbatim>\<open>io.to(user._id).emit("message received", message)\<close>,
  addressed to a member. For a message whose member list has distinct ids, the sender's
  among them, and whose members all have a session, delivery makes exactly \<open>N - 1\<close> such
  events: one to each member other than the sender, none to the sender, each carrying
  the message unchanged and reaching at least one session. The events do not depend on
  the state of the rooms at all; what is delivered is each event to every session in the
  addressed member's room, so a session receives one delivery for each other member whose
  identity room it is in, and a session joining a room that is no member's id changes
  nothing.
\<close>

theorem deliver_one_per_member:
  assumes "chat m = Some c" and "users c = Some us" and "sender m = Some sd"
    and "distinct (map uid us)" and "uid sd \<in> set (map uid us)" and "distinct (map fst st)"
    and "\<forall>u \<in> set us. io_to st (Some (uid u)) \<noteq> []"
  shows "\<exists>es ds. emits m us = Inr es
     \<and> ds = concat (map (\<lambda>(r, ev). io_to_emit st (Some r) ev) es)
     \<and> on_new_message m st = Inr (st, ds, [])
     \<and> length es = length us - 1
     \<and> es = map (\<lambda>u. (uid u, S_message_received m)) (filter (\<lambda>u. uid u \<noteq> uid sd) us)
     \<and> distinct (map fst es)
     \<and> set (map fst es) = uid ` set us - {uid sd}
     \<and> (\<forall>e \<in> set es. snd e = S_message_received m \<and> io_to st (Some (fst e)) \<noteq> [])
     \<and> (\<forall>t. received t ds =
            length (filter (\<lambda>u. uid u \<noteq> uid sd \<and> uid u \<in> set (socket_rooms st t)) us))
     \<and> (\<forall>s r. r \<notin> uid ` set us \<longrightarrow>
            on_new_message m (socket_join s r st) = Inr (socket_join s r st, ds, []))"
proof -
  let ?others = "filter (\<lambda>u. uid u \<noteq> uid sd) us"
  let ?es = "map (\<lambda>u. (uid u, S_message_received m)) ?others"
  let ?ds = "concat (map (\<lambda>(r, ev). io_to_emit st (Some r) ev) ?es)"
  have ds: "?ds = concat (map (\<lambda>u. io_to_emit st (Some (uid u)) (S_message_received m)) ?others)"
    by (simp add: comp_def)
  have em: "emits m us = Inr ?es"
    using assms(3) by (rule emits_Some)
  have del: "deliver st m us = Inr ?ds"
    by (simp add: deliver_emits em)
  have run: "on_new_message m st = Inr (st, ?ds, [])"
    using assms(1,2) del by (simp add: on_new_message_def)
  have n: "length ?es = length us - 1"
    using length_others [OF assms(4,5)] by simp
  have fst_es: "map fst ?es = map uid ?others"
    by (simp add: comp_def)
  have dist: "distinct (map fst ?es)" and rooms: "set (map fst ?es) = uid ` set us - {uid sd}"
    using others_rooms [OF assms(4), of "uid sd"] by (simp_all only: fst_es)
  have each: "\<forall>e \<in> set ?es. snd e = S_message_received m \<and> io_to st (Some (fst e)) \<noteq> []"
    using assms(7) by auto
  have cnt: "received t ?ds =
      length (filter (\<lambda>u. uid u \<noteq> uid sd \<and> uid u \<in> set (socket_rooms st t)) us)" for t
    using assms(6) by (simp only: ds) (simp add: received_concat_emit conj_commute)
  have join: "on_new_message m (socket_join s r st) = Inr (socket_join s r st, ?ds, [])"
    if "r \<notin> uid ` set us" for s r
    using assms(1,2) del that by (simp add: on_new_message_def deliver_socket_join)
  show ?thesis
  proof (rule exI [of _ ?es], rule exI [of _ ?ds], intro conjI allI impI)
    show "emits m us = Inr ?es" by (rule em)
    show "?ds = ?ds" by (rule refl)
    show "on_new_message m st = Inr (st, ?ds, [])" by (rule run)
    show "length ?es = length us - 1" by (rule n)
    show "?es = ?es" by (rule refl)
    show "distinct (map fst ?es)" by (rule dist)
    show "set (map fst ?es) = uid ` set us - {uid sd}" by (rule rooms)
    show "\<forall>e \<in> set ?es. snd e = S_message_received m \<and> io_to st (Some (fst e)) \<noteq> []"
      by (rule each)
    show "received t ?ds =
      length (filter (\<lambda>u. uid u \<noteq> uid sd \<and> uid u \<in> set (socket_rooms st t)) us)" for t
      by (rule cnt)
    show "on_new_message m (socket_join s r st) = Inr (socket_join s r st, ?ds, [])"
      if "r \<notin> uid ` set us" for s r
      using that by (rule join)
  qed
qed

lemma received_notify:
  "distinct (map fst st) \<Longrightarrow>
   received t (notify_rooms st s rs) =
     length (filter (\<lambda>r. r \<noteq> s \<and> r \<in> set (socket_rooms st t)) rs)"
  by (induction rs) (simp_all add: received_Nil received_append received_emit io_to_mem)

lemma notify_payload: "snd ` set (notify_rooms st s rs) \<subseteq> {S_peer_disconnected s}"
  by (induction rs) (auto simp: io_to_emit_def)

text \<open>
  Claim C3, as the code has it. The \<^verbatim>\<open>disconnecting\<close> handler leaves the state as it
  is and addresses to every socket one \<^verbatim>\<open>peer-disconnected\<close> event, carrying the id of
  the departing socket, for each room of the departing socket (other than the room named
  by its own id) that the socket is in: none to a socket that shares no such room, and
  \<open>k\<close> to one that shares \<open>k\<close> of them.
\<close>

theorem peer_gone_per_shared_room:
  assumes "distinct (map fst st)"
  shows "\<exists>ds. on_disconnecting s st = (st, ds, [])
     \<and> (\<forall>t. received t ds =
            length (filter (\<lambda>r. r \<noteq> s \<and> r \<in> set (socket_rooms st t)) (socket_rooms st s)))
     \<and> snd ` set ds \<subseteq> {S_peer_disconnected s}"
  using assms by (simp add: on_disconnecting_def received_notify notify_payload)

text \<open>
  Claim C8, as the code has it. A message without a chat or without a member list is
  not delivered, the line \<^verbatim>\<open>chat.users not defined\<close> is logged and nothing is thrown.
  A message with an empty member list is not delivered and nothing is thrown either, but
  nothing is logged.
\<close>

theorem deliver_without_members:
  "on_new_message (m\<lparr>chat := None\<rparr>) st = Inr (st, [], [Log_users_not_defined])
   \<and> on_new_message (m\<lparr>chat := Some (c\<lparr>users := None\<rparr>)\<rparr>) st = Inr (st, [], [Log_users_not_defined])
   \<and> on_new_message (m\<lparr>chat := Some (c\<lparr>users := Some []\<rparr>)\<rparr>) st = Inr (st, [], [])"
  by (simp add: on_new_message_def)

text \<open>
  Witness for C9: the session \<open>s1\<close> joins the room \<open>c1\<close> twice.
\<close>

theorem joinRoom_idempotent_witness:
  "distinct (map fst two_devices) \<and> ''s1'' \<in> fst ` set two_devices
   \<and> fst (on_join_chat ''s1'' ''c1'' (fst (on_join_chat ''s1'' ''c1'' two_devices)))
       = [(''s1'', [''s1'', ''u1'', ''c1'']), (''s2'', [''s2'', ''u2'']), (''s3'', [''s3'', ''u2''])]
   \<and> received ''s1'' (io_to_emit (fst (on_join_chat ''s1'' ''c1''
         (fst (on_join_chat ''s1'' ''c1'' two_devices)))) (Some ''c1'') S_connected) = 1"
proof -
  have a: "distinct (map fst two_devices)" by (simp add: two_devices_def)
  have b: "''s1'' \<in> fst ` set two_devices" by (simp add: two_devices_def)
  have c: "fst (on_join_chat ''s1'' ''c1'' two_devices)
       = [(''s1'', [''s1'', ''u1'', ''c1'']), (''s2'', [''s2'', ''u2'']), (''s3'', [''s3'', ''u2''])]"
    by (simp add: on_join_chat_def two_devices_def set_add_def)
  note t = joinRoom_idempotent [OF a b, of "''c1''" S_connected]
  from t have t1: "fst (on_join_chat ''s1'' ''c1'' (fst (on_join_chat ''s1'' ''c1'' two_devices)))
      = fst (on_join_chat ''s1'' ''c1'' two_devices)" by (rule conjunct1)
  from t have t2: "received ''s1'' (io_to_emit (fst (on_join_chat ''s1'' ''c1''
         (fst (on_join_chat ''s1'' ''c1'' two_devices)))) (Some ''c1'') S_connected) = 1"
    by (rule conjunct2)
  from t1 c have "fst (on_join_chat ''s1'' ''c1'' (fst (on_join_chat ''s1'' ''c1'' two_devices)))
       = [(''s1'', [''s1'', ''u1'', ''c1'']), (''s2'', [''s2'', ''u2'']), (''s3'', [''s3'', ''u2''])]"
    by (rule trans)
  with a b t2 show ?thesis by blast
qed

text \<open>
  Witness for C2: Ann writes to Bob, who has two sessions. One event is made, addressed to
  Bob; both of his sessions get it and Ann's session gets nothing.
\<close>

theorem deliver_one_per_member_witness:
  "chat hi = Some chat1 \<and> users chat1 = Some [ann, bob] \<and> sender hi = Some ann
   \<and> distinct (map uid [ann, bob]) \<and> uid ann \<in> set (map uid [ann, bob])
   \<and> distinct (map fst two_devices)
   \<and> io_to two_devices (Some (uid ann)) = [''s1'']
   \<and> io_to two_devices (Some (uid bob)) = [''s2'', ''s3'']
   \<and> emits hi [ann, bob] = Inr [(''u2'', S_message_received hi)]
   \<and> on_new_message hi two_devices =
       Inr (two_devices, [(''s2'', S_message_received hi), (''s3'', S_message_received hi)], [])"
proof -
  have h1: "chat hi = Some chat1" by (simp add: hi_def)
  have h2: "users chat1 = Some [ann, bob]" by (simp add: chat1_def)
  have h3: "sender hi = Some ann" by (simp add: hi_def)
  have h4: "distinct (map uid [ann, bob])" by (simp add: ann_def bob_def)
  have h5: "uid ann \<in> set (map uid [ann, bob])" by simp
  have h6: "distinct (map fst two_devices)" by (simp add: two_devices_def)
  have r1: "io_to two_devices (Some (uid ann)) = [''s1'']"
    and r2: "io_to two_devices (Some (uid bob)) = [''s2'', ''s3'']"
    by (simp_all add: two_devices_def ann_def bob_def)
  have h7: "\<forall>u \<in> set [ann, bob]. io_to two_devices (Some (uid u)) \<noteq> []"
    using r1 r2 by simp
  from deliver_one_per_member [OF h1 h2 h3 h4 h5 h6 h7]
  obtain es ds where em: "emits hi [ann, bob] = Inr es"
    and es: "es = map (\<lambda>u. (uid u, S_message_received hi)) (filter (\<lambda>u. uid u \<noteq> uid ann) [ann, bob])"
    and ds: "ds = concat (map (\<lambda>(r, ev). io_to_emit two_devices (Some r) ev) es)"
    and run: "on_new_message hi two_devices = Inr (two_devices, ds, [])"
    by blast
  have es': "es = [(''u2'', S_message_received hi)]"
    by (simp add: es ann_def bob_def)
  have "io_to two_devices (Some ''u2'') = [''s2'', ''s3'']"
    using r2 by (simp add: bob_def)
  then have "ds = [(''s2'', S_message_received hi), (''s3'', S_message_received hi)]"
    by (simp add: ds es' io_to_emit_def)
  with em es' run h1 h2 h3 h4 h5 h6 r1 r2 show ?thesis by simp
qed

text \<open>
  Counterexample to C3 as stated: \<open>s2\<close> shares the rooms \<open>c1\<close> and \<open>c2\<close> with the
  departing \<open>s1\<close> and is sent the event twice.
\<close>

theorem peer_gone_twice_counterexample:
  "socket_rooms two_chats ''s1'' = [''s1'', ''u1'', ''c1'', ''c2'']
   \<and> socket_rooms two_chats ''s2'' = [''s2'', ''u2'', ''c1'', ''c2'']
   \<and> on_disconnecting ''s1'' two_chats =
       (two_chats,
        [(''s1'', S_peer_disconnected ''s1''),
         (''s1'', S_peer_disconnected ''s1''), (''s2'', S_peer_disconnected ''s1''),
         (''s1'', S_peer_disconnected ''s1''), (''s2'', S_peer_disconnected ''s1'')], [])
   \<and> received ''s2'' (fst (snd (on_disconnecting ''s1'' two_chats))) = 2"
  by (simp add: on_disconnecting_def socket_rooms_def two_chats_def io_to_emit_def received_def)

text \<open>
  Witness for C3: \<open>s2\<close> shares two chat rooms with the departing \<open>s1\<close>; \<open>s9\<close> shares
  none.
\<close>

theorem peer_gone_per_shared_room_witness:
  "distinct (map fst two_chats)
   \<and> (\<exists>ds. on_disconnecting ''s1'' two_chats = (two_chats, ds, [])
         \<and> received ''s2'' ds = 2 \<and> received ''s9'' ds = 0
         \<and> snd ` set ds \<subseteq> {S_peer_disconnected ''s1''})"
proof -
  have h: "distinct (map fst two_chats)" by (simp add: two_chats_def)
  from peer_gone_per_shared_room [OF h, of "''s1''"]
  obtain ds where run: "on_disconnecting ''s1'' two_chats = (two_chats, ds, [])"
    and cnt: "\<And>t. received t ds =
      length (filter (\<lambda>r. r \<noteq> ''s1'' \<and> r \<in> set (socket_rooms two_chats t))
        (socket_rooms two_chats ''s1''))"
    and pay: "snd ` set ds \<subseteq> {S_peer_disconnected ''s1''}"
    by blast
  have "received ''s2'' ds = 2" "received ''s9'' ds = 0"
    by (simp_all add: cnt socket_rooms_def two_chats_def)
  with run pay h show ?thesis by blast
qed

text \<open>
  Counterexample to C8 as stated: for an empty member list nothing is logged.
\<close>

theorem deliver_empty_not_logged_counterexample:
  "users \<lparr>chat_id = ''c1'', users = Some []\<rparr> = Some []
   \<and> on_new_message unaddressed two_devices = Inr (two_devices, [], [])
   \<and> on_new_message unaddressed two_devices \<noteq> Inr (two_devices, [], [Log_users_not_defined])"
  by (simp add: on_new_message_def unaddressed_def)

section \<open>Properties of the client\<close>

subsection \<open>The example call, evaluated\<close>

lemmas client_defs =
  initial_client_def page_listeners_def modal_listeners_def mount_def unmount_def
  modal_mounted_def render_def render_props_def pc_do_def pc_get_def callConstraints_def
  set_remote_def opt_id_def or_else_def peer_id_def onicecandidate_def ontrack_def
  ontrack_stream_def
  handleOffer_def handleAnswer_def handleCandidate_def startCall_def ready_for_offer_once_def
  prepare_call_listener_def acceptCall_def closeCall_def endCall_def initiateCall_def
  handleIncomingCall_def handleCallAccepted_def handleEndCall_def committed_def
  socket_recv_def click_accept_def click_end_def click_call_def no_signal_def

lemmas browser_defs =
  stop_def stream_addTrack_def getUserMedia_def new_RTCPeerConnection_def pc_close_def
  setRemoteDescription_def setLocalDescription_def createOffer_def createAnswer_def
  addTrack_def addIceCandidate_def remote_tracks_def track_events_def

lemma bob_ringing_eval:
  "bob_ringing =
    \<lparr>auth_user = bob, permission = True, activeChat = None, showCallModal = True,
     caller = Some \<lparr>p_id = Some ''u1'', p_name = Some ''Ann''\<rparr>, callee = None,
     callAccepted = False, callType = ''video'',
     modal = Some \<lparr>mounted = True, pc = new_RTCPeerConnection, pc_current = True,
        localStream = None, remoteStream = None, inCall = False, incoming = True,
        hasLocalStream = False\<rparr>,
     instance_no = 1,
     listeners = page_listeners @ modal_listeners @ [(E_prepare_call, H_prepare_call)]\<rparr>"
  by (simp add: bob_ringing_def client_defs)

lemma bob_answered_eval:
  "bob_answered =
    \<lparr>auth_user = bob, permission = True, activeChat = None, showCallModal = True,
     caller = Some \<lparr>p_id = Some ''u1'', p_name = Some ''Ann''\<rparr>, callee = None,
     callAccepted = False, callType = ''video'',
     modal = Some \<lparr>mounted = True,
        pc = \<lparr>pc_closed = False, signalingState = Stable,
              localDescription = Some \<lparr>sdp_type = Answer, sdp_media = [Audio, Video]\<rparr>,
              remoteDescription = Some \<lparr>sdp_type = Offer, sdp_media = [Audio, Video]\<rparr>,
              senders = [Audio, Video], iceCandidates = []\<rparr>,
        pc_current = True,
        localStream = Some [\<lparr>track_id = 0, kind = Audio, live = True\<rparr>,
                            \<lparr>track_id = 1, kind = Video, live = True\<rparr>],
        remoteStream = Some [\<lparr>track_id = 0, kind = Audio, live = True\<rparr>,
                             \<lparr>track_id = 1, kind = Video, live = True\<rparr>],
        inCall = True, incoming = False, hasLocalStream = True\<rparr>,
     instance_no = 1,
     listeners = page_listeners @ modal_listeners @ [(E_prepare_call, H_prepare_call)]\<rparr>"
  by (simp add: bob_answered_def bob_accepted_def bob_ringing_eval the_offer_def client_defs browser_defs)

subsection \<open>What the browser calls return\<close>

lemma addTracks_eq:
  "addTracks ts m =
     (if ts = [] then Inr m
      else if \<not> pc_current m then Inl TypeError
      else if pc_closed (pc m) then Inl InvalidStateError
      else Inr (m\<lparr>pc := (pc m)\<lparr>senders := senders (pc m) @ map kind ts\<rparr>\<rparr>))"
proof (induction ts arbitrary: m)
  case Nil
  show ?case by simp
next
  case (Cons t ts)
  show ?case
    by (cases "ts = []") (simp_all add: Cons.IH pc_do_def addTrack_def)
qed

lemma getUserMedia_call:
  "getUserMedia (callConstraints c) g =
     (if g
      then Inr (\<lparr>track_id = 0, kind = Audio, live = True\<rparr> #
                (if callType c = ''video'' then [\<lparr>track_id = 1, kind = Video, live = True\<rparr>] else []))
      else Inl NotAllowedError)"
  by (simp add: getUserMedia_def callConstraints_def)

subsection \<open>Candidates\<close>

lemma set_remote_iceCandidates:
  "set_remote d m = Inr m1 \<Longrightarrow> iceCandidates (pc m1) = iceCandidates (pc m)"
  by (auto simp: set_remote_def setRemoteDescription_def
      split: option.splits if_splits sdp_type.splits sum.splits)

lemma setLocal_iceCandidates:
  "pc_do (setLocalDescription d) m = Inr m1 \<Longrightarrow> iceCandidates (pc m1) = iceCandidates (pc m)"
  by (auto simp: pc_do_def setLocalDescription_def split: if_splits sdp_type.splits sum.splits)

lemma addTracks_iceCandidates:
  "addTracks ts m = Inr m1 \<Longrightarrow> iceCandidates (pc m1) = iceCandidates (pc m)"
  by (auto simp: addTracks_eq split: if_splits)

lemma handleOffer_modal:
  assumes "modal c = Some m"
  shows "modal (fst (handleOffer d c)) =
    (case set_remote (sig_offer d) m of
       Inl e \<Rightarrow> Some m
     | Inr m1 \<Rightarrow>
    (case getUserMedia (callConstraints c) (permission c) of
       Inl e \<Rightarrow> Some m1
     | Inr stream \<Rightarrow>
    (case addTracks stream (m1\<lparr>localStream := Some stream, hasLocalStream := True\<rparr>) of
       Inl e \<Rightarrow> Some (m1\<lparr>localStream := Some stream, hasLocalStream := True\<rparr>)
     | Inr m2 \<Rightarrow>
    (case pc_get createAnswer m2 of
       Inl e \<Rightarrow> Some m2
     | Inr answer \<Rightarrow>
    (case pc_do (setLocalDescription answer) m2 of
       Inl e \<Rightarrow> Some m2
     | Inr m3 \<Rightarrow> Some (m3\<lparr>inCall := True\<rparr>))))))"
  using assms by (simp add: handleOffer_def split: sum.split)

lemma handleOffer_iceCandidates:
  assumes "modal c = Some m"
  shows "\<exists>m'. modal (fst (handleOffer d c)) = Some m' \<and> iceCandidates (pc m') = iceCandidates (pc m)"
proof (cases "set_remote (sig_offer d) m")
  case (Inl e)
  then show ?thesis by (simp add: handleOffer_modal [OF assms])
next
  case r1: (Inr m1)
  have i1: "iceCandidates (pc m1) = iceCandidates (pc m)"
    using r1 by (rule set_remote_iceCandidates)
  show ?thesis
  proof (cases "getUserMedia (callConstraints c) (permission c)")
    case (Inl e)
    then show ?thesis using r1 i1 by (simp add: handleOffer_modal [OF assms])
  next
    case r2: (Inr stream)
    let ?m1 = "m1\<lparr>localStream := Some stream, hasLocalStream := True\<rparr>"
    show ?thesis
    proof (cases "addTracks stream ?m1")
      case (Inl e)
      then show ?thesis using r1 r2 i1 by (simp add: handleOffer_modal [OF assms])
    next
      case r3: (Inr m2)
      have i2: "iceCandidates (pc m2) = iceCandidates (pc m)"
        using addTracks_iceCandidates [OF r3] i1 by simp
      show ?thesis
      proof (cases "pc_get createAnswer m2")
        case (Inl e)
        then show ?thesis using r1 r2 r3 i2 by (simp add: handleOffer_modal [OF assms])
      next
        case r4: (Inr answer)
        show ?thesis
        proof (cases "pc_do (setLocalDescription answer) m2")
          case (Inl e)
          then show ?thesis using r1 r2 r3 r4 i2 by (simp add: handleOffer_modal [OF assms])
        next
          case r5: (Inr m3)
          have "iceCandidates (pc m3) = iceCandidates (pc m)"
            using setLocal_iceCandidates [OF r5] i2 by simp
          then show ?thesis using r1 r2 r3 r4 r5 by (simp add: handleOffer_modal [OF assms])
        qed
      qed
    qed
  qed
qed

lemma handleAnswer_iceCandidates:
  assumes "modal c = Some m"
  shows "\<exists>m'. modal (fst (handleAnswer d c)) = Some m' \<and> iceCandidates (pc m') = iceCandidates (pc m)"
  using assms
  by (auto simp: handleAnswer_def split: sum.splits dest!: set_remote_iceCandidates)

lemma handleCandidate_early:
  assumes "modal c = Some m" and "remoteDescription (pc m) = None"
  shows "handleCandidate (d\<lparr>sig_candidate := Some cand\<rparr>) c =
           (c, [], [Err_ice_candidate (if pc_current m then InvalidStateError else TypeError)])"
  using assms by (simp add: handleCandidate_def pc_do_def addIceCandidate_def)

lemma handleCandidate_late:
  assumes "modal c = Some m" and "pc_current m" and "\<not> pc_closed (pc m)"
    and "remoteDescription (pc m) \<noteq> None"
  shows "handleCandidate (d\<lparr>sig_candidate := Some cand\<rparr>) c =
           (c\<lparr>modal := Some (m\<lparr>pc := (pc m)\<lparr>iceCandidates := iceCandidates (pc m) @ [cand]\<rparr>\<rparr>)\<rparr>, [], [])"
  using assms by (simp add: handleCandidate_def pc_do_def addIceCandidate_def)

lemma handleCandidate_fold:
  assumes "modal c = Some m" and "pc_current m" and "\<not> pc_closed (pc m)"
    and "remoteDescription (pc m) \<noteq> None"
  shows "fold (\<lambda>x k. fst (handleCandidate (no_signal\<lparr>sig_candidate := Some x\<rparr>) k)) cs c =
           c\<lparr>modal := Some (m\<lparr>pc := (pc m)\<lparr>iceCandidates := iceCandidates (pc m) @ cs\<rparr>\<rparr>)\<rparr>"
  using assms
proof (induction cs arbitrary: c m)
  case Nil
  then show ?case by simp
next
  case (Cons x cs)
  let ?m1 = "m\<lparr>pc := (pc m)\<lparr>iceCandidates := iceCandidates (pc m) @ [x]\<rparr>\<rparr>"
  let ?c1 = "c\<lparr>modal := Some ?m1\<rparr>"
  have step: "fst (handleCandidate (no_signal\<lparr>sig_candidate := Some x\<rparr>) c) = ?c1"
    using handleCandidate_late [OF Cons.prems, where d = no_signal and cand = x] by simp
  have "fold (\<lambda>x k. fst (handleCandidate (no_signal\<lparr>sig_candidate := Some x\<rparr>) k)) cs ?c1 =
      ?c1\<lparr>modal := Some (?m1\<lparr>pc := (pc ?m1)\<lparr>iceCandidates := iceCandidates (pc ?m1) @ cs\<rparr>\<rparr>)\<rparr>"
    using Cons.prems by (intro Cons.IH) simp_all
  then show ?case by (simp add: step)
qed

text \<open>
  Claim C1, as the code has it. The client has no queue for candidates. A candidate that
  arrives while the peer connection has no remote description is handed to
  \<^verbatim>\<open>addIceCandidate\<close> at once; the rejection is caught and written to the console, the
  state does not change and the candidate is kept nowhere. Candidates that arrive once
  the remote description is set (on an open connection) are applied once each, in
  arrival order. Neither \<^verbatim>\<open>handleOffer\<close> nor \<^verbatim>\<open>handleAnswer\<close>, the two functions that
  set the remote description, applies any candidate.
\<close>

theorem candidate_not_queued:
  assumes "modal c = Some m"
  shows "(remoteDescription (pc m) = None \<longrightarrow>
            handleCandidate (d\<lparr>sig_candidate := Some cand\<rparr>) c =
              (c, [], [Err_ice_candidate (if pc_current m then InvalidStateError else TypeError)]))
     \<and> (pc_current m \<and> \<not> pc_closed (pc m) \<and> remoteDescription (pc m) \<noteq> None \<longrightarrow>
            fold (\<lambda>x k. fst (handleCandidate (no_signal\<lparr>sig_candidate := Some x\<rparr>) k)) cs c =
              c\<lparr>modal := Some (m\<lparr>pc := (pc m)\<lparr>iceCandidates := iceCandidates (pc m) @ cs\<rparr>\<rparr>)\<rparr>)
     \<and> (\<exists>m'. modal (fst (handleOffer d1 c)) = Some m' \<and> iceCandidates (pc m') = iceCandidates (pc m))
     \<and> (\<exists>m'. modal (fst (handleAnswer d2 c)) = Some m' \<and> iceCandidates (pc m') = iceCandidates (pc m))"
  using handleCandidate_early [OF assms] handleCandidate_fold [OF assms]
    handleOffer_iceCandidates [OF assms] handleAnswer_iceCandidates [OF assms]
  by blast

subsection \<open>The flag \<^verbatim>\<open>inCall\<close>\<close>

lemma set_remote_eq:
  "set_remote d m =
     (case d of
        None \<Rightarrow> Inl TypeError
      | Some a \<Rightarrow>
          if \<not> pc_current m then Inl TypeError
          else if pc_closed (pc m) then Inl InvalidStateError
          else if sdp_type a = Offer
          then Inr (m\<lparr>pc := (pc m)\<lparr>remoteDescription := Some a, signalingState := HaveRemoteOffer,
                      localDescription :=
                        (if signalingState (pc m) = HaveLocalOffer then None
                         else localDescription (pc m))\<rparr>,
                    remoteStream := fold ontrack_stream (track_events a) (remoteStream m)\<rparr>)
          else if signalingState (pc m) = HaveLocalOffer
          then Inr (m\<lparr>pc := (pc m)\<lparr>remoteDescription := Some a, signalingState := Stable\<rparr>,
                    remoteStream := fold ontrack_stream (track_events a) (remoteStream m)\<rparr>)
          else Inl InvalidStateError)"
  by (simp add: set_remote_def setRemoteDescription_def split: option.split sdp_type.split)

lemma ontrack_inCall:
  assumes "modal c = Some m"
  shows "\<exists>m'. ontrack ts c = (c\<lparr>modal := Some m'\<rparr>, [], []) \<and> inCall m' = inCall m"
proof -
  let ?m' = "m\<lparr>remoteStream := ontrack_stream ts (remoteStream m)\<rparr>"
  have "ontrack ts c = (c\<lparr>modal := Some ?m'\<rparr>, [], [])"
    using assms by (simp add: ontrack_def)
  moreover have "inCall ?m' = inCall m" by simp
  ultimately show ?thesis by blast
qed

lemma handleAnswer_inCall:
  assumes "modal c = Some m"
  shows "\<exists>m'. modal (fst (handleAnswer d c)) = Some m' \<and>
     (inCall m' \<longleftrightarrow> inCall m \<or>
        (pc_current m \<and> \<not> pc_closed (pc m) \<and>
         (\<exists>a. sig_answer d = Some a \<and>
              (sdp_type a = Answer \<longrightarrow> signalingState (pc m) = HaveLocalOffer))))"
proof (cases "sig_answer d")
  case None
  then show ?thesis using assms by (simp add: handleAnswer_def set_remote_eq)
next
  case (Some a)
  then show ?thesis using assms
    by (cases "sdp_type a") (simp_all add: handleAnswer_def set_remote_eq)
qed

lemma handleOffer_ok:
  fixes c :: client
  defines "stream \<equiv> \<lparr>track_id = 0, kind = Audio, live = True\<rparr> #
     (if callType c = ''video'' then [\<lparr>track_id = 1, kind = Video, live = True\<rparr>] else [])"
  assumes "modal c = Some m" and "pc_current m" and "\<not> pc_closed (pc m)" and "permission c"
    and "sig_offer d = Some a" and "sdp_type a = Offer"
  shows "handleOffer d c =
      (c\<lparr>modal := Some (m\<lparr>pc := (pc m)\<lparr>remoteDescription := Some a, signalingState := Stable,
                   localDescription :=
                     Some \<lparr>sdp_type = Answer, sdp_media = senders (pc m) @ map kind stream\<rparr>,
                   senders := senders (pc m) @ map kind stream\<rparr>,
                 remoteStream := fold ontrack_stream (track_events a) (remoteStream m),
                 localStream := Some stream, hasLocalStream := True, inCall := True\<rparr>)\<rparr>,
       [C_webrtc_answer
          (no_signal\<lparr>sig_to := sig_from d, sig_from := Some (uid (auth_user c)),
             sig_answer :=
               Some \<lparr>sdp_type = Answer, sdp_media = senders (pc m) @ map kind stream\<rparr>\<rparr>)], [])"
  using assms(2-)
  by (simp add: stream_def handleOffer_def set_remote_eq getUserMedia_call addTracks_eq pc_get_def
      pc_do_def createAnswer_def setLocalDescription_def)

lemma handleOffer_inCall:
  assumes "modal c = Some m"
  shows "\<exists>m'. modal (fst (handleOffer d c)) = Some m' \<and>
     (inCall m' \<longleftrightarrow> inCall m \<or>
        (pc_current m \<and> \<not> pc_closed (pc m) \<and> permission c \<and>
         (\<exists>a. sig_offer d = Some a \<and> sdp_type a = Offer)))"
proof (cases "pc_current m \<and> \<not> pc_closed (pc m) \<and> permission c \<and>
         (\<exists>a. sig_offer d = Some a \<and> sdp_type a = Offer)")
  case True
  then obtain a where "sig_offer d = Some a" "sdp_type a = Offer" by blast
  with True handleOffer_ok [OF assms, of d a]
  show ?thesis by simp
next
  case False
  show ?thesis
  proof (cases "sig_offer d")
    case None
    then show ?thesis using assms False by (simp add: handleOffer_def set_remote_eq)
  next
    case (Some a)
    show ?thesis
    proof (cases "pc_current m \<and> \<not> pc_closed (pc m)")
      case no: False
      then show ?thesis using assms Some False
        by (auto simp add: handleOffer_def set_remote_eq)
    next
      case yes: True
      show ?thesis
      proof (cases "permission c")
        case p0: False
        then show ?thesis using assms Some yes False
          by (simp add: handleOffer_def set_remote_eq getUserMedia_call)
      next
        case p1: True
        then have ty: "sdp_type a = Answer" using False Some yes by (cases "sdp_type a") auto
        show ?thesis using assms Some yes p1 ty False
          by (simp add: handleOffer_def set_remote_eq getUserMedia_call addTracks_eq pc_get_def
              createAnswer_def)
      qed
    qed
  qed
qed

text \<open>
  Claim C6, as the code has it. The only phase flag of the code is \<^verbatim>\<open>inCall\<close>.
  \<^verbatim>\<open>ontrack\<close>, which the browser calls for the tracks a remote description announces
  while that description is applied, adds the tracks to the remote stream and never
  changes the flag. \<^verbatim>\<open>handleAnswer\<close> sets the flag exactly when the received answer
  could be applied as remote description, whatever tracks it announces, and
  \<^verbatim>\<open>handleOffer\<close> sets it exactly when the offer was applied, the local media acquired
  and the answer created, set and sent.
\<close>

theorem inCall_set_by_descriptions:
  assumes "modal c = Some m"
  shows "(\<exists>m'. ontrack ts c = (c\<lparr>modal := Some m'\<rparr>, [], []) \<and> inCall m' = inCall m)
     \<and> (\<exists>m'. modal (fst (handleAnswer d c)) = Some m' \<and>
           (inCall m' \<longleftrightarrow> inCall m \<or>
              (pc_current m \<and> \<not> pc_closed (pc m) \<and>
               (\<exists>a. sig_answer d = Some a \<and>
                    (sdp_type a = Answer \<longrightarrow> signalingState (pc m) = HaveLocalOffer)))))
     \<and> (\<exists>m'. modal (fst (handleOffer d c)) = Some m' \<and>
           (inCall m' \<longleftrightarrow> inCall m \<or>
              (pc_current m \<and> \<not> pc_closed (pc m) \<and> permission c \<and>
               (\<exists>a. sig_offer d = Some a \<and> sdp_type a = Offer))))"
  using ontrack_inCall [OF assms] handleAnswer_inCall [OF assms] handleOffer_inCall [OF assms]
  by blast

subsection \<open>\<^verbatim>\<open>startCall\<close> and the readiness handshake\<close>

lemma startCall_ok:
  fixes c :: client
  defines "stream \<equiv> \<lparr>track_id = 0, kind = Audio, live = True\<rparr> #
     (if callType c = ''video'' then [\<lparr>track_id = 1, kind = Video, live = True\<rparr>] else [])"
  assumes "modal c = Some m" and "pc_current m" and "\<not> pc_closed (pc m)"
    and "callee c = Some p" and "permission c"
  shows "startCall c =
      (c\<lparr>modal := Some (m\<lparr>pc := (pc m)\<lparr>senders := senders (pc m) @ map kind stream\<rparr>,
                 localStream := Some stream, hasLocalStream := True\<rparr>),
         listeners := listeners c @ [(E_ready_for_offer, H_ready_for_offer_once (instance_no c))]\<rparr>,
       [C_prepare_call (no_signal\<lparr>sig_to := p_id p, sig_from := Some (uid (auth_user c))\<rparr>)], [])"
  using assms(2-)
  by (simp add: stream_def startCall_def getUserMedia_call addTracks_eq)

lemma filter_fst_notin:
  "e \<notin> fst ` set xs \<Longrightarrow> filter (\<lambda>l. fst l = e) xs = []"
  by (induction xs) auto

lemma remove1_append_last: "x \<notin> set xs \<Longrightarrow> remove1 x (xs @ [x]) = xs"
  by (induction xs) auto

text \<open>
  Claim C5, as the code has it. On an open peer connection, with the callee known and
  the media granted, \<^verbatim>\<open>startCall\<close> first acquires the local media (audio always, video
  iff the call type is \<^verbatim>\<open>video\<close>) and attaches the tracks, then emits \<^verbatim>\<open>prepare-call\<close>
  and registers the listener for \<^verbatim>\<open>ready-for-offer\<close>; it creates no offer. Only when
  \<^verbatim>\<open>ready-for-offer\<close> arrives does the client create the offer, set it as its local
  description and send it to the callee.
\<close>

theorem startCall_then_ready:
  fixes c :: client
  defines "stream \<equiv> \<lparr>track_id = 0, kind = Audio, live = True\<rparr> #
     (if callType c = ''video'' then [\<lparr>track_id = 1, kind = Video, live = True\<rparr>] else [])"
  assumes "modal c = Some m" and "pc_current m" and "\<not> pc_closed (pc m)"
    and "signalingState (pc m) \<noteq> HaveRemoteOffer"
    and "callee c = Some p" and "permission c"
    and "E_ready_for_offer \<notin> fst ` set (listeners c)"
  shows "startCall c =
      (c\<lparr>modal := Some (m\<lparr>pc := (pc m)\<lparr>senders := senders (pc m) @ map kind stream\<rparr>,
                 localStream := Some stream, hasLocalStream := True\<rparr>),
         listeners := listeners c @ [(E_ready_for_offer, H_ready_for_offer_once (instance_no c))]\<rparr>,
       [C_prepare_call (no_signal\<lparr>sig_to := p_id p, sig_from := Some (uid (auth_user c))\<rparr>)], [])
   \<and> socket_recv (S_ready_for_offer d) (fst (startCall c)) =
      (c\<lparr>modal := Some (m\<lparr>pc := (pc m)\<lparr>senders := senders (pc m) @ map kind stream,
                   localDescription :=
                     Some \<lparr>sdp_type = Offer, sdp_media = senders (pc m) @ map kind stream\<rparr>,
                   signalingState := HaveLocalOffer\<rparr>,
                 localStream := Some stream, hasLocalStream := True\<rparr>)\<rparr>,
       [C_webrtc_offer
          (no_signal\<lparr>sig_to := p_id p, sig_from := Some (uid (auth_user c)),
             sig_offer :=
               Some \<lparr>sdp_type = Offer, sdp_media = senders (pc m) @ map kind stream\<rparr>\<rparr>)], [])"
proof -
  note s = startCall_ok [OF assms(2,3,4,6,7), folded stream_def]
  have notin: "(E_ready_for_offer, H_ready_for_offer_once (instance_no c)) \<notin> set (listeners c)"
    using assms(8) by force
  have "socket_recv (S_ready_for_offer d) (fst (startCall c)) =
      ready_for_offer_once (instance_no c) (fst (startCall c))"
    using assms(8) by (simp add: s socket_recv_def filter_fst_notin)
  also have "\<dots> =
      (c\<lparr>modal := Some (m\<lparr>pc := (pc m)\<lparr>senders := senders (pc m) @ map kind stream,
                   localDescription :=
                     Some \<lparr>sdp_type = Offer, sdp_media = senders (pc m) @ map kind stream\<rparr>,
                   signalingState := HaveLocalOffer\<rparr>,
                 localStream := Some stream, hasLocalStream := True\<rparr>)\<rparr>,
       [C_webrtc_offer
          (no_signal\<lparr>sig_to := p_id p, sig_from := Some (uid (auth_user c)),
             sig_offer :=
               Some \<lparr>sdp_type = Offer, sdp_media = senders (pc m) @ map kind stream\<rparr>\<rparr>)], [])"
    using assms(3,4,5,6) notin
    by (simp add: s ready_for_offer_once_def pc_get_def pc_do_def createOffer_def
        setLocalDescription_def remove1_append_last)
  finally show ?thesis using s by simp
qed

subsection \<open>The listener table in the states a client can reach\<close>

text \<open>
  The four signaling listeners of \<^verbatim>\<open>CallModal\<close> are registered only while an instance is
  mounted, and the \<^verbatim>\<open>end-call\<close> listener of \<^verbatim>\<open>ChatsPage\<close> is always registered.
\<close>

lemma set_remote_mounted: "set_remote d m = Inr m1 \<Longrightarrow> mounted m1 = mounted m"
  by (auto simp: set_remote_eq split: option.splits if_splits)

lemma pc_do_mounted: "pc_do f m = Inr m1 \<Longrightarrow> mounted m1 = mounted m"
  by (auto simp: pc_do_def split: if_splits sum.splits)

lemma addTracks_mounted: "addTracks ts m = Inr m1 \<Longrightarrow> mounted m1 = mounted m"
  by (auto simp: addTracks_eq split: if_splits)

lemma handleOffer_listeners: "listeners (fst (handleOffer d c)) = listeners c"
  by (simp add: handleOffer_def split: option.split sum.split)

lemma handleOffer_mounted: "modal_mounted (fst (handleOffer d c)) = modal_mounted c"
proof (cases "modal c")
  case None
  then show ?thesis by (simp add: handleOffer_def)
next
  case (Some m)
  show ?thesis
    by (auto simp: modal_mounted_def handleOffer_modal [OF Some] Some split: sum.splits
        dest!: set_remote_mounted pc_do_mounted addTracks_mounted)
qed

lemma handleAnswer_listeners: "listeners (fst (handleAnswer d c)) = listeners c"
  by (simp add: handleAnswer_def split: option.split sum.split)

lemma handleAnswer_mounted: "modal_mounted (fst (handleAnswer d c)) = modal_mounted c"
  by (auto simp: modal_mounted_def handleAnswer_def split: option.splits sum.splits
      dest!: set_remote_mounted)

lemma handleCandidate_listeners: "listeners (fst (handleCandidate d c)) = listeners c"
  by (simp add: handleCandidate_def split: option.split sum.split)

lemma handleCandidate_mounted: "modal_mounted (fst (handleCandidate d c)) = modal_mounted c"
  by (auto simp: modal_mounted_def handleCandidate_def split: option.splits sum.splits
      dest!: pc_do_mounted)

lemma listener_ok_cong:
  "modal_mounted c' = modal_mounted c \<Longrightarrow> listener_ok c' = listener_ok c"
  by (rule ext) (simp add: listener_ok_def)

lemma listeners_ok_same:
  "listeners c' = listeners c \<Longrightarrow> modal_mounted c' = modal_mounted c \<Longrightarrow>
   listeners_ok c' = listeners_ok c"
  using listener_ok_cong [of c' c] by (simp add: listeners_ok_def)

lemma listeners_ok_initial: "listeners_ok (initial_client u g ch)"
  by (simp add: listeners_ok_def listener_ok_def initial_client_def page_listeners_def)

lemma listeners_ok_mount: "listeners_ok c \<Longrightarrow> listeners_ok (mount c)"
  by (auto simp: listeners_ok_def listener_ok_def mount_def list_all_iff modal_mounted_def
      modal_listeners_def)

lemma listeners_ok_unmount: "listeners_ok c \<Longrightarrow> listeners_ok (unmount c)"
  by (auto simp: listeners_ok_def listener_ok_def unmount_def list_all_iff modal_mounted_def
      split: option.splits)

lemma listeners_ok_render: "listeners_ok c \<Longrightarrow> listeners_ok (render c)"
  by (simp add: render_def listeners_ok_mount listeners_ok_unmount)

lemma listeners_ok_render_props: "listeners_ok c \<Longrightarrow> listeners_ok (render_props c)"
proof (cases "showCallModal c \<and> modal_mounted c")
  case False
  assume "listeners_ok c"
  then show ?thesis using False by (auto simp: render_props_def listeners_ok_render)
next
  case True
  assume ok: "listeners_ok c"
  from True obtain m where m: "modal c = Some m" "mounted m"
    by (auto simp: modal_mounted_def split: option.splits)
  have "listeners_ok (c\<lparr>modal := Some (m\<lparr>pc := new_RTCPeerConnection, pc_current := True\<rparr>)\<rparr>)
      = listeners_ok c"
    using m by (intro listeners_ok_same) (simp_all add: modal_mounted_def)
  then show ?thesis using True m ok by (simp add: render_props_def)
qed

lemma fst_committed: "fst (committed r) = render (fst r)"
  by (simp add: committed_def split_beta)

lemma fst_run_all_Cons:
  "fst (run_all (h # hs) ev c) = fst (run_all hs ev (fst (run_handler h ev c)))"
  by (simp add: split_beta)

lemma listeners_ok_handleIncomingCall:
  "listeners_ok (handleIncomingCall d c) = listeners_ok c"
  unfolding handleIncomingCall_def by (intro listeners_ok_same) (simp_all add: modal_mounted_def)

lemma listeners_ok_initiateCall:
  "listeners_ok (fst (initiateCall t c)) = listeners_ok c"
proof (intro listeners_ok_same)
  show "listeners (fst (initiateCall t c)) = listeners c"
    by (simp add: initiateCall_def split: option.split)
  show "modal_mounted (fst (initiateCall t c)) = modal_mounted c"
    by (simp add: initiateCall_def modal_mounted_def split: option.split)
qed

lemma listeners_ok_click_call: "listeners_ok c \<Longrightarrow> listeners_ok (fst (click_call t c))"
proof -
  assume "listeners_ok c"
  then have ok: "listeners_ok (fst (initiateCall t c))" by (simp add: listeners_ok_initiateCall)
  have "fst (click_call t c) =
      (if fst (snd (initiateCall t c)) = [] then fst (initiateCall t c)
       else render_props (fst (initiateCall t c)))"
    by (simp add: click_call_def split_beta)
  then show ?thesis using ok by (simp add: listeners_ok_render_props)
qed

lemma listeners_ok_closeCall: "listeners_ok (closeCall c) = listeners_ok c"
  unfolding closeCall_def by (intro listeners_ok_same) (simp_all add: modal_mounted_def)

lemma listeners_ok_endCall: "listeners_ok (fst (endCall c)) = listeners_ok c"
  by (intro listeners_ok_same)
     (simp_all add: endCall_def closeCall_def modal_mounted_def split: option.split)

lemma startCall_mounted: "modal_mounted (fst (startCall c)) = modal_mounted c"
  by (simp add: startCall_def modal_mounted_def addTracks_eq split: option.split sum.split)

lemma listeners_ok_startCall: "listeners_ok c \<Longrightarrow> listeners_ok (fst (startCall c))"
proof -
  assume ok: "listeners_ok c"
  have "set (listeners (fst (startCall c))) \<subseteq>
      insert (E_ready_for_offer, H_ready_for_offer_once (instance_no c)) (set (listeners c))"
    by (auto simp: startCall_def split: option.splits sum.splits)
  moreover have "listener_ok (fst (startCall c)) = listener_ok c"
    by (rule listener_ok_cong) (rule startCall_mounted)
  moreover have "listener_ok c (E_ready_for_offer, H_ready_for_offer_once (instance_no c))"
    by (simp add: listener_ok_def)
  ultimately show ?thesis
    using ok by (auto simp: listeners_ok_def list_all_iff)
qed

lemma ready_mounted: "modal_mounted (fst (ready_for_offer_once n c)) = modal_mounted c"
  by (auto simp: ready_for_offer_once_def Let_def modal_mounted_def
      split: option.splits sum.splits dest!: pc_do_mounted)

lemma listeners_ok_ready: "listeners_ok c \<Longrightarrow> listeners_ok (fst (ready_for_offer_once n c))"
proof -
  assume ok: "listeners_ok c"
  have "listeners (fst (ready_for_offer_once n c)) =
      remove1 (E_ready_for_offer, H_ready_for_offer_once n) (listeners c)"
    by (simp add: ready_for_offer_once_def Let_def split: option.split sum.split)
  then have "set (listeners (fst (ready_for_offer_once n c))) \<subseteq> set (listeners c)"
    using set_remove1_subset by metis
  moreover have "listener_ok (fst (ready_for_offer_once n c)) = listener_ok c"
    by (rule listener_ok_cong) (rule ready_mounted)
  ultimately show ?thesis
    using ok by (auto simp: listeners_ok_def list_all_iff)
qed

lemma listeners_ok_run_handler:
  "listeners_ok c \<Longrightarrow> listeners_ok (fst (run_handler h ev c))"
proof (cases h)
  case H_handleIncomingCall
  assume "listeners_ok c"
  then have "listeners_ok (handleIncomingCall (payload ev) c)"
    by (simp add: listeners_ok_handleIncomingCall)
  then show ?thesis using H_handleIncomingCall by (simp add: listeners_ok_render_props)
next
  case H_handleCallAccepted
  assume ok: "listeners_ok c"
  have "listeners_ok (handleCallAccepted c) = listeners_ok c"
    unfolding handleCallAccepted_def by (intro listeners_ok_same) (simp_all add: modal_mounted_def)
  with ok have "listeners_ok (handleCallAccepted c)" by simp
  then show ?thesis using H_handleCallAccepted by (simp add: listeners_ok_render)
next
  case H_handleEndCall
  assume "listeners_ok c"
  then show ?thesis using H_handleEndCall
    by (simp add: handleEndCall_def listeners_ok_render listeners_ok_closeCall)
next
  case H_handleMessage
  assume "listeners_ok c"
  then show ?thesis using H_handleMessage by simp
next
  case H_handleOffer
  assume "listeners_ok c"
  then show ?thesis using H_handleOffer
    by (simp add: listeners_ok_same [OF handleOffer_listeners handleOffer_mounted])
next
  case H_handleAnswer
  assume "listeners_ok c"
  then show ?thesis using H_handleAnswer
    by (simp add: listeners_ok_same [OF handleAnswer_listeners handleAnswer_mounted])
next
  case H_handleCandidate
  assume "listeners_ok c"
  then show ?thesis using H_handleCandidate
    by (simp add: listeners_ok_same [OF handleCandidate_listeners handleCandidate_mounted])
next
  case H_handlePeerLeave
  assume "listeners_ok c"
  then have "listeners_ok (render (fst (endCall c)))"
    by (intro listeners_ok_render) (simp add: listeners_ok_endCall)
  then show ?thesis using H_handlePeerLeave by (simp add: fst_committed)
next
  case H_prepare_call
  assume "listeners_ok c"
  then show ?thesis using H_prepare_call by (simp add: prepare_call_listener_def)
next
  case (H_ready_for_offer_once n)
  assume "listeners_ok c"
  then show ?thesis using H_ready_for_offer_once by (simp add: listeners_ok_ready)
qed

lemma listeners_ok_run_all:
  "listeners_ok c \<Longrightarrow> listeners_ok (fst (run_all hs ev c))"
proof (induction hs arbitrary: c)
  case Nil
  then show ?case by simp
next
  case (Cons h hs)
  have "listeners_ok (fst (run_handler h ev c))"
    using Cons.prems by (rule listeners_ok_run_handler)
  then have "listeners_ok (fst (run_all hs ev (fst (run_handler h ev c))))"
    by (rule Cons.IH)
  then show ?case by (simp only: fst_run_all_Cons)
qed

lemma reachable_listeners_ok: "reachable c \<Longrightarrow> listeners_ok c"
proof (induction rule: reachable.induct)
  case (start u granted ch)
  show ?case by (rule listeners_ok_initial)
next
  case (recv c ev)
  then show ?case by (simp add: socket_recv_def listeners_ok_run_all)
next
  case (accept c)
  have "listeners_ok (fst (click_accept c)) = listeners_ok c"
    by (intro listeners_ok_same)
       (auto simp: click_accept_def acceptCall_def modal_mounted_def split: option.splits)
  with accept show ?case by simp
next
  case (hang_up c)
  then have "listeners_ok (render (fst (endCall c)))"
    by (intro listeners_ok_render) (simp add: listeners_ok_endCall)
  then show ?case by (simp add: click_end_def fst_committed)
next
  case (call c type)
  then show ?case by (simp add: listeners_ok_click_call)
next
  case (timer c)
  then show ?case by (simp add: listeners_ok_startCall)
next
  case (track c ts)
  have "listeners_ok (fst (ontrack ts c)) = listeners_ok c"
    by (intro listeners_ok_same)
       (auto simp: ontrack_def modal_mounted_def split: option.splits)
  with track show ?case by simp
next
  case (ice c cand)
  then show ?case by (simp add: onicecandidate_def split: option.split)
next
  case (open_chat c ch)
  have "listeners_ok (c\<lparr>activeChat := ch\<rparr>) = listeners_ok c"
    by (intro listeners_ok_same) (simp_all add: modal_mounted_def)
  with open_chat show ?case by simp
next
  case (permit c granted)
  have "listeners_ok (c\<lparr>permission := granted\<rparr>) = listeners_ok c"
    by (intro listeners_ok_same) (simp_all add: modal_mounted_def)
  with permit show ?case by simp
qed

subsection \<open>Events after the end of a call\<close>

lemma run_all_const:
  "(\<And>h. h \<in> set hs \<Longrightarrow> run_handler h ev c = (c, [], [])) \<Longrightarrow> run_all hs ev c = (c, [], [])"
  by (induction hs) simp_all

lemma ended_closeCall: "ended c \<Longrightarrow> closeCall c = c"
  by (cases c) (simp add: ended_def closeCall_def)

lemma ended_render: "ended c \<Longrightarrow> render c = c"
  by (simp add: ended_def render_def)

lemma ended_handleEndCall: "ended c \<Longrightarrow> run_handler H_handleEndCall ev c = (c, [], [])"
  by (simp add: handleEndCall_def ended_closeCall ended_render)

lemma unmounted_listener:
  assumes "listeners_ok c" and "\<not> modal_mounted c" and "(e, h) \<in> set (listeners c)"
  shows "e \<noteq> E_webrtc_offer \<and> e \<noteq> E_webrtc_answer \<and> e \<noteq> E_webrtc_ice_candidate
     \<and> (e = E_end_call \<longrightarrow> h = H_handleEndCall)"
proof -
  have ok: "listener_ok c (e, h)"
    using assms(1,3) by (auto simp: listeners_ok_def list_all_iff)
  have once: "once_listener (e, h) \<Longrightarrow> e = E_ready_for_offer"
    by (cases "(e, h)" rule: once_listener.cases) simp_all
  show ?thesis
    using ok assms(2) once by (auto simp: listener_ok_def page_listeners_def)
qed

text \<open>
  Claim C7. In every state the client can reach in which the call is over, a second
  \<^verbatim>\<open>end-call\<close> and a stray offer, answer or candidate change nothing, emit nothing and
  write no error.
\<close>

theorem stray_after_ended:
  assumes "reachable c" and "ended c" and "stray ev"
  shows "socket_recv ev c = (c, [], [])"
proof -
  have ok: "listeners_ok c" using assms(1) by (rule reachable_listeners_ok)
  have un: "\<not> modal_mounted c" using assms(2) by (simp add: ended_def)
  have "run_handler h ev c = (c, [], [])"
    if "h \<in> set (map snd (filter (\<lambda>l. fst l = event_name_of ev) (listeners c)))" for h
  proof -
    from that have mem: "(event_name_of ev, h) \<in> set (listeners c)" by auto
    note u = unmounted_listener [OF ok un mem]
    show ?thesis
    proof (cases ev rule: stray.cases)
      case (1 d)
      then have "h = H_handleEndCall" using u by simp
      then show ?thesis using ended_handleEndCall [OF assms(2)] by simp
    next
      case (2 d)
      then show ?thesis using u by simp
    next
      case (3 d)
      then show ?thesis using u by simp
    next
      case (4 d)
      then show ?thesis using u by simp
    qed (use assms(3) in simp_all)
  qed
  then show ?thesis unfolding socket_recv_def by (rule run_all_const)
qed

subsection \<open>The two ways a call ends\<close>

text \<open>
  The local hang-up stops the local tracks; a received \<^verbatim>\<open>end-call\<close> unmounts the modal
  and leaves the local stream as it is.
\<close>

lemma click_end_modal:
  assumes "modal c = Some m"
  shows "modal (fst (click_end c)) =
     Some (m\<lparr>mounted := False, pc := (if pc_current m then pc_close (pc m) else pc m),
              pc_current := (if mounted m then False else pc_current m),
              localStream := map_option (map stop) (localStream m),
              remoteStream := map_option (map stop) (remoteStream m)\<rparr>)"
  using assms
  by (cases "mounted m")
     (simp_all add: click_end_def fst_committed endCall_def closeCall_def render_def
       modal_mounted_def unmount_def pc_close_def)

lemma click_end_ended:
  assumes "modal c = Some m"
  shows "ended (fst (click_end c))"
  using assms
  by (cases "mounted m")
     (simp_all add: click_end_def fst_committed endCall_def closeCall_def render_def
       modal_mounted_def unmount_def ended_def)

lemma hang_up_stops_local_tracks:
  assumes "modal c = Some m" and "mounted m" and "pc_current m"
  shows "\<exists>m'. modal (fst (click_end c)) = Some m' \<and> ended (fst (click_end c))
     \<and> pc_closed (pc m')
     \<and> localStream m' = map_option (map stop) (localStream m)
     \<and> (\<forall>ts t. localStream m' = Some ts \<longrightarrow> t \<in> set ts \<longrightarrow> \<not> live t)"
proof -
  let ?m' = "m\<lparr>mounted := False, pc := pc_close (pc m), pc_current := False,
              localStream := map_option (map stop) (localStream m),
              remoteStream := map_option (map stop) (remoteStream m)\<rparr>"
  have "modal (fst (click_end c)) = Some ?m'"
    using assms by (simp add: click_end_modal [OF assms(1)])
  moreover have "pc_closed (pc ?m')" by (simp add: pc_close_def)
  moreover have "\<forall>ts t. localStream ?m' = Some ts \<longrightarrow> t \<in> set ts \<longrightarrow> \<not> live t"
    by (auto simp: stop_def)
  moreover have "localStream ?m' = map_option (map stop) (localStream m)" by simp
  ultimately show ?thesis using click_end_ended [OF assms(1)] by blast
qed

lemma end_listener_render:
  "(E_end_call, H_handleEndCall) \<in> set (listeners c) \<Longrightarrow>
   (E_end_call, H_handleEndCall) \<in> set (listeners (render c))"
  by (auto simp: render_def mount_def unmount_def modal_listeners_def split: option.splits)

lemma end_listener_render_props:
  "(E_end_call, H_handleEndCall) \<in> set (listeners c) \<Longrightarrow>
   (E_end_call, H_handleEndCall) \<in> set (listeners (render_props c))"
  by (auto simp: render_props_def end_listener_render split: option.splits)

lemma endCall_listeners: "listeners (fst (endCall c)) = listeners c"
  by (simp add: endCall_def closeCall_def split: option.split)

lemma startCall_listeners:
  "set (listeners c) \<subseteq> set (listeners (fst (startCall c)))"
  by (auto simp: startCall_def split: option.splits sum.splits)

lemma ready_listeners:
  "listeners (fst (ready_for_offer_once n c)) =
     remove1 (E_ready_for_offer, H_ready_for_offer_once n) (listeners c)"
  by (simp add: ready_for_offer_once_def Let_def split: option.split sum.split)

lemma end_listener_run_handler:
  assumes "(E_end_call, H_handleEndCall) \<in> set (listeners c)"
  shows "(E_end_call, H_handleEndCall) \<in> set (listeners (fst (run_handler h ev c)))"
proof (cases h)
  case H_handleIncomingCall
  have "listeners (handleIncomingCall (payload ev) c) = listeners c"
    by (simp add: handleIncomingCall_def)
  then show ?thesis using assms H_handleIncomingCall by (simp add: end_listener_render_props)
next
  case H_handleCallAccepted
  have "listeners (handleCallAccepted c) = listeners c" by (simp add: handleCallAccepted_def)
  then show ?thesis using assms H_handleCallAccepted by (simp add: end_listener_render)
next
  case H_handleEndCall
  have "listeners (handleEndCall c) = listeners c" by (simp add: handleEndCall_def closeCall_def)
  then show ?thesis using assms H_handleEndCall by (simp add: end_listener_render)
next
  case H_handleMessage
  then show ?thesis using assms by simp
next
  case H_handleOffer
  then show ?thesis using assms by (simp add: handleOffer_listeners)
next
  case H_handleAnswer
  then show ?thesis using assms by (simp add: handleAnswer_listeners)
next
  case H_handleCandidate
  then show ?thesis using assms by (simp add: handleCandidate_listeners)
next
  case H_handlePeerLeave
  then show ?thesis using assms
    by (simp add: fst_committed end_listener_render endCall_listeners)
next
  case H_prepare_call
  then show ?thesis using assms by (simp add: prepare_call_listener_def)
next
  case (H_ready_for_offer_once n)
  then show ?thesis using assms by (simp add: ready_listeners)
qed

lemma end_listener_run_all:
  "(E_end_call, H_handleEndCall) \<in> set (listeners c) \<Longrightarrow>
   (E_end_call, H_handleEndCall) \<in> set (listeners (fst (run_all hs ev c)))"
proof (induction hs arbitrary: c)
  case Nil
  then show ?case by simp
next
  case (Cons h hs)
  have "(E_end_call, H_handleEndCall) \<in> set (listeners (fst (run_handler h ev c)))"
    using Cons.prems by (rule end_listener_run_handler)
  then have "(E_end_call, H_handleEndCall)
      \<in> set (listeners (fst (run_all hs ev (fst (run_handler h ev c)))))"
    by (rule Cons.IH)
  then show ?case by (simp only: fst_run_all_Cons)
qed

lemma reachable_end_listener:
  "reachable c \<Longrightarrow> (E_end_call, H_handleEndCall) \<in> set (listeners c)"
proof (induction rule: reachable.induct)
  case (start u granted ch)
  show ?case by (simp add: initial_client_def page_listeners_def)
next
  case (recv c ev)
  then show ?case by (simp add: socket_recv_def end_listener_run_all)
next
  case (accept c)
  then show ?case by (simp add: click_accept_def acceptCall_def split: option.split)
next
  case (hang_up c)
  then show ?case
    by (simp add: click_end_def fst_committed end_listener_render endCall_listeners)
next
  case (call c type)
  have "listeners (fst (initiateCall type c)) = listeners c"
    by (simp add: initiateCall_def split: option.split)
  then show ?case using call.IH
    by (simp add: click_call_def split_beta end_listener_render_props)
next
  case (timer c)
  then show ?case using startCall_listeners [of c] by blast
next
  case (track c ts)
  then show ?case by (simp add: ontrack_def split: option.split)
next
  case (ice c cand)
  then show ?case by (simp add: onicecandidate_def split: option.split)
next
  case (open_chat c ch)
  then show ?case by simp
next
  case (permit c granted)
  then show ?case by simp
qed

lemma ended_render_closeCall: "ended (render (closeCall c))"
  by (simp add: ended_def render_def closeCall_def modal_mounted_def unmount_def
      split: option.split)

lemma end_call_handlers:
  assumes "listeners_ok c" and "(E_end_call, h) \<in> set (listeners c)"
  shows "h = H_handleEndCall"
proof -
  have ok: "listener_ok c (E_end_call, h)"
    using assms by (auto simp: listeners_ok_def list_all_iff)
  have "\<not> once_listener (E_end_call, h)" by simp
  then show ?thesis
    using ok by (auto simp: listener_ok_def page_listeners_def modal_listeners_def)
qed

lemma run_all_end_call:
  assumes "\<And>h. h \<in> set hs \<Longrightarrow> h = H_handleEndCall" and "hs \<noteq> []"
  shows "run_all hs ev c = (render (closeCall c), [], [])"
proof (cases hs)
  case Nil
  then show ?thesis using assms(2) by simp
next
  case (Cons h hs')
  have h: "h = H_handleEndCall" using assms(1) Cons by simp
  have rest: "run_all hs' ev (render (closeCall c)) = (render (closeCall c), [], [])"
  proof (rule run_all_const)
    fix k assume "k \<in> set hs'"
    then have "k = H_handleEndCall" using assms(1) Cons by simp
    then show "run_handler k ev (render (closeCall c)) = (render (closeCall c), [], [])"
      using ended_handleEndCall [OF ended_render_closeCall, of ev c] by simp
  qed
  show ?thesis using Cons h rest by (simp add: handleEndCall_def)
qed

lemma remote_end_result:
  assumes "reachable c"
  shows "socket_recv (S_end_call d) c = (render (closeCall c), [], [])"
proof -
  let ?hs = "map snd (filter (\<lambda>l. fst l = E_end_call) (listeners c))"
  have ok: "listeners_ok c" using assms by (rule reachable_listeners_ok)
  have "(E_end_call, H_handleEndCall) \<in> set (filter (\<lambda>l. fst l = E_end_call) (listeners c))"
    using reachable_end_listener [OF assms] by simp
  then have "filter (\<lambda>l. fst l = E_end_call) (listeners c) \<noteq> []"
    by (metis empty_iff empty_set)
  then have ne: "?hs \<noteq> []" by simp
  have all: "h = H_handleEndCall" if "h \<in> set ?hs" for h
  proof -
    from that have "(E_end_call, h) \<in> set (listeners c)" by auto
    with ok show ?thesis by (rule end_call_handlers)
  qed
  show ?thesis
    using run_all_end_call [OF all ne] by (simp add: socket_recv_def)
qed

lemma remote_end_modal:
  assumes "reachable c" and "modal c = Some m"
  shows "ended (fst (socket_recv (S_end_call d) c))
     \<and> modal (fst (socket_recv (S_end_call d) c)) =
         Some (if mounted m
               then m\<lparr>mounted := False,
                      pc := (if pc_current m then pc_close (pc m) else pc m),
                      pc_current := False\<rparr>
               else m)"
  using assms(2)
  by (simp add: remote_end_result [OF assms(1)] ended_render_closeCall)
     (simp add: render_def closeCall_def modal_mounted_def unmount_def)

subsection \<open>The states of the example call\<close>

lemma ann_dialing_eval:
  "ann_dialing =
    \<lparr>auth_user = ann, permission = True, activeChat = Some chat1, showCallModal = True,
     caller = None, callee = Some \<lparr>p_id = Some ''u2'', p_name = Some ''Bob''\<rparr>,
     callAccepted = False, callType = ''video'',
     modal = Some \<lparr>mounted = True, pc = new_RTCPeerConnection, pc_current = True,
        localStream = None, remoteStream = None, inCall = False, incoming = False,
        hasLocalStream = False\<rparr>,
     instance_no = 1,
     listeners = page_listeners @ modal_listeners @ [(E_prepare_call, H_prepare_call)]\<rparr>"
  by (simp add: ann_dialing_def chat1_def ann_def bob_def client_defs)

lemma ann_accepted_eval: "ann_accepted = ann_dialing\<lparr>callAccepted := True\<rparr>"
  by (simp add: ann_accepted_def ann_dialing_eval client_defs)

lemma ann_prepared_eval:
  "ann_prepared =
    \<lparr>auth_user = ann, permission = True, activeChat = Some chat1, showCallModal = True,
     caller = None, callee = Some \<lparr>p_id = Some ''u2'', p_name = Some ''Bob''\<rparr>,
     callAccepted = True, callType = ''video'',
     modal = Some \<lparr>mounted = True,
        pc = \<lparr>pc_closed = False, signalingState = Stable, localDescription = None,
              remoteDescription = None, senders = [Audio, Video], iceCandidates = []\<rparr>,
        pc_current = True,
        localStream = Some [\<lparr>track_id = 0, kind = Audio, live = True\<rparr>,
                            \<lparr>track_id = 1, kind = Video, live = True\<rparr>],
        remoteStream = None, inCall = False, incoming = False, hasLocalStream = True\<rparr>,
     instance_no = 1,
     listeners = page_listeners @ modal_listeners @
       [(E_prepare_call, H_prepare_call), (E_ready_for_offer, H_ready_for_offer_once 1)]\<rparr>"
  by (simp add: ann_prepared_def ann_accepted_eval ann_dialing_eval ann_def client_defs browser_defs)

lemma ann_offering_eval:
  "ann_offering =
    \<lparr>auth_user = ann, permission = True, activeChat = Some chat1, showCallModal = True,
     caller = None, callee = Some \<lparr>p_id = Some ''u2'', p_name = Some ''Bob''\<rparr>,
     callAccepted = True, callType = ''video'',
     modal = Some \<lparr>mounted = True,
        pc = \<lparr>pc_closed = False, signalingState = HaveLocalOffer,
              localDescription = Some \<lparr>sdp_type = Offer, sdp_media = [Audio, Video]\<rparr>,
              remoteDescription = None, senders = [Audio, Video], iceCandidates = []\<rparr>,
        pc_current = True,
        localStream = Some [\<lparr>track_id = 0, kind = Audio, live = True\<rparr>,
                            \<lparr>track_id = 1, kind = Video, live = True\<rparr>],
        remoteStream = None, inCall = False, incoming = False, hasLocalStream = True\<rparr>,
     instance_no = 1,
     listeners = page_listeners @ modal_listeners @ [(E_prepare_call, H_prepare_call)]\<rparr>"
  by (simp add: ann_offering_def ann_prepared_eval client_defs browser_defs)

lemma ann_answered_eval:
  "ann_answered =
    \<lparr>auth_user = ann, permission = True, activeChat = Some chat1, showCallModal = True,
     caller = None, callee = Some \<lparr>p_id = Some ''u2'', p_name = Some ''Bob''\<rparr>,
     callAccepted = True, callType = ''video'',
     modal = Some \<lparr>mounted = True,
        pc = \<lparr>pc_closed = False, signalingState = Stable,
              localDescription = Some \<lparr>sdp_type = Offer, sdp_media = [Audio, Video]\<rparr>,
              remoteDescription = Some \<lparr>sdp_type = Answer, sdp_media = [Audio, Video]\<rparr>,
              senders = [Audio, Video], iceCandidates = []\<rparr>,
        pc_current = True,
        localStream = Some [\<lparr>track_id = 0, kind = Audio, live = True\<rparr>,
                            \<lparr>track_id = 1, kind = Video, live = True\<rparr>],
        remoteStream = Some [\<lparr>track_id = 0, kind = Audio, live = True\<rparr>,
                             \<lparr>track_id = 1, kind = Video, live = True\<rparr>],
        inCall = True, incoming = False, hasLocalStream = True\<rparr>,
     instance_no = 1,
     listeners = page_listeners @ modal_listeners @ [(E_prepare_call, H_prepare_call)]\<rparr>"
  by (simp add: ann_answered_def ann_offering_eval the_answer_def client_defs browser_defs)

lemma bob_remote_end_eval:
  "bob_remote_end =
    \<lparr>auth_user = bob, permission = True, activeChat = None, showCallModal = False,
     caller = None, callee = None, callAccepted = False, callType = ''video'',
     modal = Some \<lparr>mounted = False,
        pc = \<lparr>pc_closed = True, signalingState = Stable,
              localDescription = Some \<lparr>sdp_type = Answer, sdp_media = [Audio, Video]\<rparr>,
              remoteDescription = Some \<lparr>sdp_type = Offer, sdp_media = [Audio, Video]\<rparr>,
              senders = [Audio, Video], iceCandidates = []\<rparr>,
        pc_current = False,
        localStream = Some [\<lparr>track_id = 0, kind = Audio, live = True\<rparr>,
                            \<lparr>track_id = 1, kind = Video, live = True\<rparr>],
        remoteStream = Some [\<lparr>track_id = 0, kind = Audio, live = True\<rparr>,
                             \<lparr>track_id = 1, kind = Video, live = True\<rparr>],
        inCall = True, incoming = False, hasLocalStream = True\<rparr>,
     instance_no = 1,
     listeners = page_listeners @ [(E_prepare_call, H_prepare_call)]\<rparr>"
  by (simp add: bob_remote_end_def bob_answered_eval client_defs browser_defs)

lemma bob_hung_up_eval:
  "bob_hung_up =
    \<lparr>auth_user = bob, permission = True, activeChat = None, showCallModal = False,
     caller = None, callee = None, callAccepted = False, callType = ''video'',
     modal = Some \<lparr>mounted = False,
        pc = \<lparr>pc_closed = True, signalingState = Stable,
              localDescription = Some \<lparr>sdp_type = Answer, sdp_media = [Audio, Video]\<rparr>,
              remoteDescription = Some \<lparr>sdp_type = Offer, sdp_media = [Audio, Video]\<rparr>,
              senders = [Audio, Video], iceCandidates = []\<rparr>,
        pc_current = False,
        localStream = Some [\<lparr>track_id = 0, kind = Audio, live = False\<rparr>,
                            \<lparr>track_id = 1, kind = Video, live = False\<rparr>],
        remoteStream = Some [\<lparr>track_id = 0, kind = Audio, live = False\<rparr>,
                             \<lparr>track_id = 1, kind = Video, live = False\<rparr>],
        inCall = True, incoming = False, hasLocalStream = True\<rparr>,
     instance_no = 1,
     listeners = page_listeners @ [(E_prepare_call, H_prepare_call)]\<rparr>"
  by (simp add: bob_hung_up_def bob_answered_eval client_defs browser_defs)

text \<open>
  Claim C4 fails on the path of a received \<^verbatim>\<open>end-call\<close>. Bob's client is in a call
  with two live local tracks. When Ann's \<^verbatim>\<open>end-call\<close> arrives the call is over and the
  peer connection is closed, but both local tracks are still live. When Bob presses End
  instead, both are stopped.
\<close>

theorem remote_end_keeps_local_tracks_live:
  "inCall (the (modal bob_answered))
   \<and> map live (the (localStream (the (modal bob_answered)))) = [True, True]
   \<and> socket_recv (S_end_call (no_signal\<lparr>sig_to := Some ''u2''\<rparr>)) bob_answered
       = (bob_remote_end, [], [])
   \<and> ended bob_remote_end
   \<and> pc_closed (pc (the (modal bob_remote_end)))
   \<and> map live (the (localStream (the (modal bob_remote_end)))) = [True, True]
   \<and> fst (click_end bob_answered) = bob_hung_up
   \<and> ended bob_hung_up
   \<and> pc_closed (pc (the (modal bob_hung_up)))
   \<and> map live (the (localStream (the (modal bob_hung_up)))) = [False, False]"
proof -
  have "socket_recv (S_end_call (no_signal\<lparr>sig_to := Some ''u2''\<rparr>)) bob_answered
       = (bob_remote_end, [], [])"
    by (simp add: bob_remote_end_eval) (simp add: bob_answered_eval client_defs browser_defs)
  then show ?thesis
    by (simp add: bob_hung_up_def [symmetric])
       (simp add: bob_answered_eval bob_remote_end_eval bob_hung_up_eval ended_def
         modal_mounted_def)
qed

subsection \<open>Witnesses and counterexamples for the client\<close>

lemma bob_accepted_eval: "bob_accepted = bob_ringing\<lparr>modal :=
    Some \<lparr>mounted = True, pc = new_RTCPeerConnection, pc_current = True,
        localStream = None, remoteStream = None, inCall = False, incoming = False,
        hasLocalStream = False\<rparr>\<rparr>"
  by (simp add: bob_accepted_def bob_ringing_eval client_defs)

text \<open>
  Counterexample to C1 as stated: a candidate arrives at Bob's client before the offer.
  It is rejected and dropped; after the offer has been applied as remote description, no
  candidate has been applied.
\<close>

theorem early_candidate_dropped_counterexample:
  "remoteDescription (pc (the (modal bob_ringing))) = None
   \<and> socket_recv (S_webrtc_ice_candidate early_candidate) bob_ringing
       = (bob_ringing, [], [Err_ice_candidate InvalidStateError])
   \<and> bob_answered = fst (socket_recv (S_webrtc_offer the_offer) (fst (click_accept bob_ringing)))
   \<and> remoteDescription (pc (the (modal bob_answered))) = sig_offer the_offer
   \<and> iceCandidates (pc (the (modal bob_answered))) = []"
proof -
  have "socket_recv (S_webrtc_ice_candidate early_candidate) bob_ringing
       = (bob_ringing, [], [Err_ice_candidate InvalidStateError])"
    by (simp add: bob_ringing_eval early_candidate_def client_defs browser_defs)
  moreover have "remoteDescription (pc (the (modal bob_ringing))) = None"
    by (simp add: bob_ringing_eval new_RTCPeerConnection_def)
  moreover have "remoteDescription (pc (the (modal bob_answered))) = sig_offer the_offer"
    by (simp add: bob_answered_eval the_offer_def no_signal_def)
  moreover have "iceCandidates (pc (the (modal bob_answered))) = []"
    by (simp add: bob_answered_eval)
  ultimately show ?thesis by (simp add: bob_answered_def bob_accepted_def)
qed

text \<open>
  Witness for C1: a candidate reaches Bob's client while it rings (no remote description),
  and two candidates reach it after it has answered.
\<close>

theorem candidate_not_queued_witness:
  "remoteDescription (pc (the (modal bob_ringing))) = None
   \<and> handleCandidate early_candidate bob_ringing
       = (bob_ringing, [], [Err_ice_candidate InvalidStateError])
   \<and> remoteDescription (pc (the (modal bob_answered))) \<noteq> None
   \<and> iceCandidates (pc (the (modal
         (fold (\<lambda>x k. fst (handleCandidate (no_signal\<lparr>sig_candidate := Some x\<rparr>) k))
            [Candidate ''a'', Candidate ''b''] bob_answered))))
       = [Candidate ''a'', Candidate ''b'']"
proof -
  obtain m1 where m1: "modal bob_ringing = Some m1" and r1: "remoteDescription (pc m1) = None"
    and p1: "pc_current m1"
    by (simp add: bob_ringing_eval new_RTCPeerConnection_def)
  obtain m2 where m2: "modal bob_answered = Some m2" and r2: "remoteDescription (pc m2) \<noteq> None"
    and p2: "pc_current m2" "\<not> pc_closed (pc m2)" and i2: "iceCandidates (pc m2) = []"
    by (simp add: bob_answered_eval)
  have e: "early_candidate\<lparr>sig_candidate := Some (Candidate ''a'')\<rparr> = early_candidate"
    by (simp add: early_candidate_def)
  from candidate_not_queued [OF m1, where d = early_candidate and cand = "Candidate ''a''"] r1 p1 e
  have a: "handleCandidate early_candidate bob_ringing
       = (bob_ringing, [], [Err_ice_candidate InvalidStateError])"
    by simp
  from candidate_not_queued [OF m2, where cs = "[Candidate ''a'', Candidate ''b'']"] r2 p2
  have "fold (\<lambda>x k. fst (handleCandidate (no_signal\<lparr>sig_candidate := Some x\<rparr>) k))
            [Candidate ''a'', Candidate ''b''] bob_answered
       = bob_answered\<lparr>modal := Some (m2\<lparr>pc := (pc m2)\<lparr>iceCandidates :=
            iceCandidates (pc m2) @ [Candidate ''a'', Candidate ''b'']\<rparr>\<rparr>)\<rparr>"
    by blast
  then have b: "iceCandidates (pc (the (modal
         (fold (\<lambda>x k. fst (handleCandidate (no_signal\<lparr>sig_candidate := Some x\<rparr>) k))
            [Candidate ''a'', Candidate ''b''] bob_answered))))
       = [Candidate ''a'', Candidate ''b'']"
    using i2 by simp
  show ?thesis using a b m1 r1 m2 r2 by simp
qed

text \<open>
  Counterexample to C5 as stated: when \<^verbatim>\<open>startCall\<close> has run and only \<^verbatim>\<open>prepare-call\<close>
  has been sent, with no \<^verbatim>\<open>ready-for-offer\<close> received yet, Ann's client already holds its
  local media and has attached the tracks.
\<close>

theorem media_before_ready_counterexample:
  "startCall_scheduled ann_accepted
   \<and> localStream (the (modal ann_accepted)) = None
   \<and> startCall ann_accepted =
       (ann_prepared,
        [C_prepare_call (no_signal\<lparr>sig_to := Some ''u2'', sig_from := Some ''u1''\<rparr>)], [])
   \<and> map kind (the (localStream (the (modal ann_prepared)))) = [Audio, Video]
   \<and> senders (pc (the (modal ann_prepared))) = [Audio, Video]
   \<and> localDescription (pc (the (modal ann_prepared))) = None"
proof -
  have "startCall ann_accepted =
       (ann_prepared,
        [C_prepare_call (no_signal\<lparr>sig_to := Some ''u2'', sig_from := Some ''u1''\<rparr>)], [])"
    by (simp add: ann_prepared_eval)
       (simp add: ann_accepted_eval ann_dialing_eval ann_def client_defs browser_defs)
  then show ?thesis
    by (simp add: ann_prepared_eval)
       (simp add: ann_accepted_eval ann_dialing_eval startCall_scheduled_def)
qed

text \<open>
  Witness for C5: Ann's client after Bob's accept.
\<close>

theorem startCall_then_ready_witness:
  "callee ann_accepted = Some \<lparr>p_id = Some ''u2'', p_name = Some ''Bob''\<rparr>
   \<and> permission ann_accepted
   \<and> E_ready_for_offer \<notin> fst ` set (listeners ann_accepted)
   \<and> fst (snd (startCall ann_accepted)) =
       [C_prepare_call (no_signal\<lparr>sig_to := Some ''u2'', sig_from := Some ''u1''\<rparr>)]
   \<and> fst (snd (socket_recv (S_ready_for_offer no_signal) (fst (startCall ann_accepted)))) =
       [C_webrtc_offer the_offer]"
proof -
  obtain m where m: "modal ann_accepted = Some m" and p: "pc_current m" "\<not> pc_closed (pc m)"
      "signalingState (pc m) \<noteq> HaveRemoteOffer" and s: "senders (pc m) = []"
    by (simp add: ann_accepted_eval ann_dialing_eval new_RTCPeerConnection_def)
  have c: "callee ann_accepted = Some \<lparr>p_id = Some ''u2'', p_name = Some ''Bob''\<rparr>"
    and g: "permission ann_accepted"
    and l: "E_ready_for_offer \<notin> fst ` set (listeners ann_accepted)"
    and v: "callType ann_accepted = ''video''" and u: "uid (auth_user ann_accepted) = ''u1''"
    by (simp_all add: ann_accepted_eval ann_dialing_eval page_listeners_def modal_listeners_def
        ann_def)
  note t = startCall_then_ready [OF m p c g l, where d = no_signal]
  from t [THEN conjunct1] have "fst (snd (startCall ann_accepted)) =
       [C_prepare_call (no_signal\<lparr>sig_to := Some ''u2'', sig_from := Some ''u1''\<rparr>)]"
    using u by simp
  moreover from t [THEN conjunct2] have
    "fst (snd (socket_recv (S_ready_for_offer no_signal) (fst (startCall ann_accepted)))) =
       [C_webrtc_offer the_offer]"
    using u v s by (simp add: the_offer_def)
  ultimately show ?thesis using c g l by blast
qed

lemma ann_silent_eval:
  "ann_silent =
    \<lparr>auth_user = ann, permission = True, activeChat = Some chat1, showCallModal = True,
     caller = None, callee = Some \<lparr>p_id = Some ''u2'', p_name = Some ''Bob''\<rparr>,
     callAccepted = True, callType = ''video'',
     modal = Some \<lparr>mounted = True,
        pc = \<lparr>pc_closed = False, signalingState = Stable,
              localDescription = Some \<lparr>sdp_type = Offer, sdp_media = [Audio, Video]\<rparr>,
              remoteDescription = Some \<lparr>sdp_type = Answer, sdp_media = []\<rparr>,
              senders = [Audio, Video], iceCandidates = []\<rparr>,
        pc_current = True,
        localStream = Some [\<lparr>track_id = 0, kind = Audio, live = True\<rparr>,
                            \<lparr>track_id = 1, kind = Video, live = True\<rparr>],
        remoteStream = None, inCall = True, incoming = False, hasLocalStream = True\<rparr>,
     instance_no = 1,
     listeners = page_listeners @ modal_listeners @ [(E_prepare_call, H_prepare_call)]\<rparr>"
  by (simp add: ann_silent_def ann_offering_eval silent_answer_def client_defs browser_defs)

text \<open>
  Counterexample to C6 as stated: Ann's client has sent its offer and has observed no
  remote track. The answer that arrives announces no media, so the browser fires no
  track event while it is applied. Ann's client is in the call all the same, with no
  remote track observed at any time.
\<close>

theorem inCall_on_silent_answer_counterexample:
  "\<not> inCall (the (modal ann_offering))
   \<and> remoteStream (the (modal ann_offering)) = None
   \<and> sig_answer silent_answer = Some \<lparr>sdp_type = Answer, sdp_media = []\<rparr>
   \<and> track_events \<lparr>sdp_type = Answer, sdp_media = []\<rparr> = []
   \<and> socket_recv (S_webrtc_answer silent_answer) ann_offering = (ann_silent, [], [])
   \<and> inCall (the (modal ann_silent))
   \<and> remoteStream (the (modal ann_silent)) = None"
proof -
  have "socket_recv (S_webrtc_answer silent_answer) ann_offering = (ann_silent, [], [])"
    by (simp add: ann_silent_eval)
       (simp add: ann_offering_eval silent_answer_def client_defs browser_defs)
  then show ?thesis
    by (simp add: ann_silent_eval)
       (simp add: ann_offering_eval silent_answer_def no_signal_def track_events_def
         remote_tracks_def)
qed

text \<open>
  Witness for C6: Ann's client, which has sent its offer, receives Bob's answer and is in
  the call. A client like Bob's whose user refuses the camera receives Ann's offer: the
  tracks the offer announces are observed, and the client is not in the call.
\<close>

theorem inCall_set_by_descriptions_witness:
  "\<not> inCall (the (modal ann_offering))
   \<and> sig_answer the_answer = Some \<lparr>sdp_type = Answer, sdp_media = [Audio, Video]\<rparr>
   \<and> signalingState (pc (the (modal ann_offering))) = HaveLocalOffer
   \<and> inCall (the (modal (fst (handleAnswer the_answer ann_offering))))
   \<and> \<not> permission (bob_accepted\<lparr>permission := False\<rparr>)
   \<and> \<not> inCall (the (modal (fst (handleOffer the_offer (bob_accepted\<lparr>permission := False\<rparr>)))))
   \<and> map kind (the (remoteStream (the (modal
         (fst (handleOffer the_offer (bob_accepted\<lparr>permission := False\<rparr>)))))))
       = [Audio, Video]"
proof -
  obtain m where m: "modal ann_offering = Some m" and p: "pc_current m" "\<not> pc_closed (pc m)"
      and st: "signalingState (pc m) = HaveLocalOffer" and i: "\<not> inCall m"
    by (simp add: ann_offering_eval)
  have a: "sig_answer the_answer = Some \<lparr>sdp_type = Answer, sdp_media = [Audio, Video]\<rparr>"
    by (simp add: the_answer_def no_signal_def)
  note t = inCall_set_by_descriptions [OF m, where d = the_answer]
  from t obtain m2 where "modal (fst (handleAnswer the_answer ann_offering)) = Some m2"
    and "inCall m2 \<longleftrightarrow> inCall m \<or>
        (pc_current m \<and> \<not> pc_closed (pc m) \<and>
         (\<exists>a. sig_answer the_answer = Some a \<and>
              (sdp_type a = Answer \<longrightarrow> signalingState (pc m) = HaveLocalOffer)))"
    by blast
  then have y: "inCall (the (modal (fst (handleAnswer the_answer ann_offering))))"
    using p st a by simp
  let ?b = "bob_accepted\<lparr>permission := False\<rparr>"
  obtain k where k: "modal ?b = Some k" and ik: "\<not> inCall k"
    by (simp add: bob_accepted_eval bob_ringing_eval)
  have np: "\<not> permission ?b" by simp
  note u = inCall_set_by_descriptions [OF k, where d = the_offer]
  from u obtain k2 where "modal (fst (handleOffer the_offer ?b)) = Some k2"
    and "inCall k2 \<longleftrightarrow> inCall k \<or>
        (pc_current k \<and> \<not> pc_closed (pc k) \<and> permission ?b \<and>
         (\<exists>a. sig_offer the_offer = Some a \<and> sdp_type a = Offer))"
    by blast
  then have x: "\<not> inCall (the (modal (fst (handleOffer the_offer ?b))))"
    using ik by simp
  have z: "map kind (the (remoteStream (the (modal (fst (handleOffer the_offer ?b)))))) = [Audio, Video]"
    by (simp add: bob_accepted_eval bob_ringing_eval the_offer_def client_defs browser_defs)
  show ?thesis using x y z a m st i by simp
qed

text \<open>
  Witness for C7: Bob's client after Ann has ended the call.
\<close>

theorem stray_after_ended_witness:
  "reachable bob_remote_end \<and> ended bob_remote_end
   \<and> stray (S_webrtc_offer the_offer) \<and> stray (S_end_call no_signal)
   \<and> socket_recv (S_webrtc_offer the_offer) bob_remote_end = (bob_remote_end, [], [])
   \<and> socket_recv (S_end_call no_signal) bob_remote_end = (bob_remote_end, [], [])"
proof -
  have "reachable bob_ringing"
    unfolding bob_ringing_def by (intro reachable.recv reachable.start)
  moreover have "accept_shown bob_ringing"
    by (simp add: bob_ringing_eval accept_shown_def)
  ultimately have "reachable bob_accepted"
    unfolding bob_accepted_def by (rule reachable.accept)
  then have r: "reachable bob_remote_end"
    unfolding bob_remote_end_def bob_answered_def by (intro reachable.recv)
  have e: "ended bob_remote_end"
    by (simp add: bob_remote_end_eval ended_def modal_mounted_def)
  have s1: "stray (S_webrtc_offer the_offer)" and s2: "stray (S_end_call no_signal)"
    by simp_all
  show ?thesis
    using r e s1 s2 stray_after_ended [OF r e s1] stray_after_ended [OF r e s2] by blast
qed

end
